theory Spec2Isabelle
  imports Main
begin

section \<open>SECL rule compiler: identifier resolution and comparison dispatch\<close>

text \<open>
  A shallow embedding of the evaluator compiler of package \<open>eval\<close>
  (\<open>extractField\<close>, \<open>identToEvaluator\<close>, \<open>arrayToEvaluator\<close>, \<open>nodeToEvaluator\<close>).
  Go strings are byte strings (\<open>string\<close>), Go maps are partial functions, a Go
  \<open>(value, error)\<close> return is a sum with the error on the left, and the compile state
  that the Go code mutates through a pointer is passed in and returned.
\<close>

subsection \<open>Positions and errors\<close>

type_synonym Field = string
type_synonym RegisterID = string

text \<open>\<open>lexer.Position\<close>; \<open>lexer.Position{}\<close> is \<open>NoPosition\<close>.\<close>

datatype Position = Position (Filename: string) (Offset: int) (Line: int) (Column: int)

definition NoPosition :: Position where
  "NoPosition = Position [] 0 0 0"

text \<open>\<open>reflect.Kind\<close>, the kinds the compiler names in its type errors.\<close>

datatype Kind = reflect_Bool | reflect_Int | reflect_String | reflect_Array

text \<open>
  The errors the compiler builds, one constructor per Go constructor call.
  \<open>ErrExternal\<close> is an error handed back by a collaborator (the model, an operator);
  a panic of the Go runtime on a nil pointer is \<open>PanicNilDereference\<close>.
\<close>

datatype error =
    ErrWrongRegisterFormat string
  | ErrRegisterNameNotAllowed Position RegisterID string
  | ErrRegisterMultipleFields Position RegisterID string
  | ErrTypeError Position Kind
  | ErrOpUnknown Position string
  | ErrNonStaticPattern Field
  | ErrAstToEval Position string
  | ErrExternal string
  | PanicNilDereference

subsection \<open>Extracting the register from an identifier\<close>

text \<open>
  \<open>regexp.MustCompile(`\[([^\]]*)\]`).FindStringSubmatch(field)\<close>: the slice of the
  leftmost match and its one group, or the empty slice when nothing matches. A match
  starts at an opening bracket that has a closing bracket somewhere after it; the group
  cannot cross a closing bracket, so it ends at the first one. If the first opening bracket
  has no closing bracket after it, no later one has either.
\<close>

definition register_FindStringSubmatch :: "string \<Rightarrow> string list" where
  "register_FindStringSubmatch field =
     (case dropWhile (\<lambda>c. c \<noteq> CHR ''['') field of
        [] \<Rightarrow> []
      | b # rest \<Rightarrow>
          if CHR '']'' \<in> set rest
          then (let g = takeWhile (\<lambda>c. c \<noteq> CHR '']'') rest in [b # g @ '']'', g])
          else [])"

text \<open>
  The second expression, \<open>(.+)\[[^\]]+\](.*)\<close>. \<open>bracket_here t\<close> says that
  \<open>\[[^\]]+\]\<close> matches at the head of \<open>t\<close>: an opening bracket, at least one
  character other than a closing bracket, and a closing bracket later on.
\<close>

definition bracket_here :: "string \<Rightarrow> bool" where
  "bracket_here t =
     (case t of
        b # c # u \<Rightarrow> b = CHR ''['' \<and> c \<noteq> CHR '']'' \<and> CHR '']'' \<in> set u
      | _ \<Rightarrow> False)"

text \<open>
  The dot of a Go regular expression does not match a line feed, so the first group stays
  inside the first line of \<open>s\<close>. It is greedy: among the places of that line, after at
  least one character, where \<open>\[[^\]]+\]\<close> matches, the match takes the last one.
\<close>

definition group_end :: "string \<Rightarrow> nat option" where
  "group_end s =
     (let n = length (takeWhile (\<lambda>c. c \<noteq> CHR 0x0A) s);
          js = filter (\<lambda>j. bracket_here (drop j s)) [1..<n]
      in if js = [] then None else Some (last js))"

text \<open>
  \<open>ReplaceAllString(field, "$1$2")\<close> when \<open>both\<close> holds and
  \<open>ReplaceAllString(field, "$1")\<close> otherwise. A match starts at the head of a line
  and runs to the end of the line that holds the closing bracket; text that no match
  covers is copied. A string without a match comes back unchanged.
\<close>

function register_ReplaceAllString :: "bool \<Rightarrow> string \<Rightarrow> string" where
  "register_ReplaceAllString both s =
     (case group_end s of
        None \<Rightarrow>
          (case dropWhile (\<lambda>c. c \<noteq> CHR 0x0A) s of
             [] \<Rightarrow> s
           | c # r \<Rightarrow> takeWhile (\<lambda>c. c \<noteq> CHR 0x0A) s @ c # register_ReplaceAllString both r)
      | Some j \<Rightarrow>
          (let after = tl (dropWhile (\<lambda>c. c \<noteq> CHR '']'') (drop (Suc j) s));
               g2 = takeWhile (\<lambda>c. c \<noteq> CHR 0x0A) after
           in take j s @ (if both then g2 else []) @
              (case dropWhile (\<lambda>c. c \<noteq> CHR 0x0A) after of
                 [] \<Rightarrow> []
               | c # r \<Rightarrow> c # register_ReplaceAllString both r)))"
  by pat_completeness auto

termination register_ReplaceAllString
proof (relation "measure (\<lambda>(both, s). length s)")
  show "wf (measure (\<lambda>(both, s). length s))" by simp
next
  fix both :: bool and s :: string and c :: char and r :: string
  assume d: "dropWhile (\<lambda>c. c \<noteq> CHR 0x0A) s = c # r"
  have "length (dropWhile (\<lambda>c. c \<noteq> CHR 0x0A) s) \<le> length s"
    by (rule length_dropWhile_le)
  with d show "((both, r), (both, s)) \<in> measure (\<lambda>(both, s). length s)" by simp
next
  fix both :: bool and s :: string and j :: nat and after g2 :: string
    and c :: char and r :: string
  assume a: "after = tl (dropWhile (\<lambda>c. c \<noteq> CHR '']'') (drop (Suc j) s))"
    and d: "dropWhile (\<lambda>c. c \<noteq> CHR 0x0A) after = c # r"
  have "length (dropWhile (\<lambda>c. c \<noteq> CHR 0x0A) after) \<le> length after"
    by (rule length_dropWhile_le)
  with d have "length r < length after" by simp
  also have "length after \<le> length (dropWhile (\<lambda>c. c \<noteq> CHR '']'') (drop (Suc j) s))"
    using a by simp
  also have "\<dots> \<le> length (drop (Suc j) s)" by (rule length_dropWhile_le)
  also have "\<dots> \<le> length s" by simp
  finally show "((both, r), (both, s)) \<in> measure (\<lambda>(both, s). length s)" by simp
qed

text \<open>
  \<open>extractField\<close>: the normalized field, the iterator field and the register id of an
  identifier. The three branches are those of \<open>switch len(ids)\<close>.
\<close>

definition extractField :: "string \<Rightarrow> error + (Field \<times> Field \<times> RegisterID)" where
  "extractField field =
     (let ids = register_FindStringSubmatch field in
      if length ids = 0 then Inr (field, [], [])
      else if length ids = 2
        then Inr (register_ReplaceAllString True field,
                  register_ReplaceAllString False field, ids ! 1)
        else Inl (ErrWrongRegisterFormat field))"

subsection \<open>Evaluators\<close>

text \<open>The per-event argument of a deferred evaluation; supplied by the rule engine.\<close>

typedecl Context

text \<open>The kind of a string value or of a member of an array literal.\<close>

datatype FieldValueType = ScalarValueType | PatternValueType | RegexpValueType

text \<open>
  Modelled from the spec: the struct declarations of the evaluators are not part of the
  sources at hand. Each evaluator carries a statically known value or, when \<open>EvalFnc\<close>
  is not nil, a deferred function of the context, and a weight; an integer evaluator
  carries the duration flag, a string evaluator its field name, its value type, the
  compiled expression (here its source text) and the table of operator overrides.
  A function pointer in that table is a handle (\<open>nat\<close>) that the environment resolves.
\<close>

record BoolEvaluator =
  Bool_EvalFnc :: "(Context \<Rightarrow> bool) option"
  Bool_Value :: bool
  Bool_Weight :: int

record IntEvaluator =
  Int_EvalFnc :: "(Context \<Rightarrow> int) option"
  Int_Value :: int
  isDuration :: bool

record OpOverrides =
  OpOverrides_StringEquals :: "nat option"

record StringEvaluator =
  String_EvalFnc :: "(Context \<Rightarrow> string) option"
  String_Field :: Field
  String_Value :: string
  String_ValueType :: FieldValueType
  String_regexp :: "string option"
  String_OpOverrides :: "OpOverrides option"

record BoolArrayEvaluator =
  BoolArray_EvalFnc :: "(Context \<Rightarrow> bool list) option"
  BoolArray_Values :: "bool list"

record IntArrayEvaluator =
  IntArray_EvalFnc :: "(Context \<Rightarrow> int list) option"
  IntArray_Values :: "int list"

record StringArrayEvaluator =
  StringArray_EvalFnc :: "(Context \<Rightarrow> string list) option"
  StringArray_Values :: "string list"

text \<open>
  A compiled value, the \<open>interface{}\<close> that the compiler returns and switches on. The
  first six constructors are the pointer types of the type switches.
  \<open>IntArrayValue\<close> is an \<open>IntArrayEvaluator\<close> held by value, which is what
  \<open>arrayToEvaluator\<close> returns for an array of numbers; no type switch has a case for it.
  \<open>OtherValue\<close> is any other value (a constant or a macro value of another type, nil).
\<close>

datatype Evaluator =
    BoolEv BoolEvaluator
  | IntEv IntEvaluator
  | StringEv StringEvaluator
  | BoolArrayEv BoolArrayEvaluator
  | IntArrayEv IntArrayEvaluator
  | StringArrayEv StringArrayEvaluator
  | IntArrayValue IntArrayEvaluator
  | OtherValue

text \<open>
  Modelled from the spec: the evaluation of a boolean evaluator is not part of the sources
  at hand. A deferred function is applied to the context; without one the static value is
  the result.
\<close>

definition Bool_Eval :: "BoolEvaluator \<Rightarrow> Context \<Rightarrow> bool" where
  "Bool_Eval e ctx = (case Bool_EvalFnc e of Some f \<Rightarrow> f ctx | None \<Rightarrow> Bool_Value e)"

subsection \<open>Model, options and compile state\<close>

text \<open>An iterator of the model, known by a handle.\<close>

datatype Iterator = Iterator string

text \<open>
  The model collaborator. \<open>GetIterator\<close> returns the Go pair (iterator, error) as it is,
  since \<open>identToEvaluator\<close> reads the iterator of a failed call; of \<open>GetEvaluator\<close> only
  the error or else the value is read.
\<close>

record Model =
  GetIterator :: "Field \<Rightarrow> Iterator option \<times> error option"
  GetEvaluator :: "Field \<Rightarrow> RegisterID \<Rightarrow> error + Evaluator"

text \<open>\<open>Opts\<close>: a nil map is \<open>None\<close>. \<open>Constants\<close> is only read by key.\<close>

record Opts =
  LegacyAttributes :: "(Field \<rightharpoonup> Field) option"
  Constants :: "string \<rightharpoonup> Evaluator"

text \<open>\<open>registerInfo\<close>, its fields \<open>iterator\<close>, \<open>field\<close> and \<open>subFields\<close> prefixed.\<close>

record registerInfo =
  reg_iterator :: Iterator
  reg_field :: Field
  reg_subFields :: "Field \<rightharpoonup> bool"

text \<open>
  The compile state. \<open>macros\<close> maps a macro id to the macro's \<open>Value\<close>, the only part
  of a macro that is read. \<open>referencedFields\<close> is modelled from the spec (the accumulated set
  of referenced field names, extended by \<open>UpdateFields\<close>). \<open>randCalls\<close> is not a field of
  the Go struct: it counts the calls of \<open>RandString\<close> made so far, so that the
  generator's outcomes are a parameter of the model.
\<close>

record state =
  model :: Model
  macros :: "(string \<rightharpoonup> Evaluator) option"
  registersInfo :: "RegisterID \<rightharpoonup> registerInfo"
  referencedFields :: "Field set"
  randCalls :: nat

text \<open>The macro lookup \<open>state.macros[id]\<close> under its test \<open>state.macros != nil\<close>.\<close>

definition macroValue :: "state \<Rightarrow> string \<Rightarrow> Evaluator option" where
  "macroValue s ident = (case macros s of None \<Rightarrow> None | Some ms \<Rightarrow> ms ident)"

text \<open>Modelled from the spec: \<open>UpdateFields\<close> adds the field to the state's field set.\<close>

definition UpdateFields :: "Field \<Rightarrow> state \<Rightarrow> state" where
  "UpdateFields f s = s\<lparr>referencedFields := insert f (referencedFields s)\<rparr>"

subsection \<open>The operators and helpers of the package\<close>

text \<open>\<open>ast.StringMember\<close>: a member of an array literal of strings.\<close>

record StringMember =
  Member_String :: "string option"
  Member_Pattern :: "string option"
  Member_Regexp :: "string option"

type_synonym 'a BoolOperator = "'a \<Rightarrow> Opts \<Rightarrow> state \<Rightarrow> error + BoolEvaluator"
type_synonym 'a IntOperator = "'a \<Rightarrow> Opts \<Rightarrow> state \<Rightarrow> error + IntEvaluator"

text \<open>
  The generated operators and the helpers that the compiler calls are not part of the
  sources at hand, so they are parameters of the model, with the signature of their call.
  They read the options and the compile state; the model takes it that they do not change
  the state. \<open>StringEquals_override h\<close> is the function behind the handle \<open>h\<close> of an
  override table. \<open>compilePattern\<close> and \<open>Compile\<close> change their argument in place and
  return an error: here they return the error's message or the evaluator as changed.
  \<open>RandString k n\<close> is what the \<open>k\<close>-th call of \<open>RandString(n)\<close> returns.
\<close>

record Operators =
  Or :: "BoolEvaluator \<Rightarrow> BoolEvaluator BoolOperator"
  And :: "BoolEvaluator \<Rightarrow> BoolEvaluator BoolOperator"
  IntAnd :: "IntEvaluator \<Rightarrow> IntEvaluator IntOperator"
  IntOr :: "IntEvaluator \<Rightarrow> IntEvaluator IntOperator"
  IntXor :: "IntEvaluator \<Rightarrow> IntEvaluator IntOperator"
  Minus :: "IntEvaluator \<Rightarrow> Opts \<Rightarrow> state \<Rightarrow> IntEvaluator"
  IntNot :: "IntEvaluator \<Rightarrow> Opts \<Rightarrow> state \<Rightarrow> IntEvaluator"
  BoolEquals :: "BoolEvaluator \<Rightarrow> BoolEvaluator BoolOperator"
  ArrayBoolEquals :: "BoolEvaluator \<Rightarrow> BoolArrayEvaluator BoolOperator"
  ArrayBoolContains :: "BoolEvaluator \<Rightarrow> BoolArrayEvaluator BoolOperator"
  StringEquals :: "StringEvaluator \<Rightarrow> StringEvaluator BoolOperator"
  StringEquals_override :: "nat \<Rightarrow> StringEvaluator \<Rightarrow> StringEvaluator BoolOperator"
  ArrayStringContains :: "StringEvaluator \<Rightarrow> StringArrayEvaluator BoolOperator"
  ArrayStringMatches :: "StringArrayEvaluator \<Rightarrow> StringArrayEvaluator BoolOperator"
  IntEquals :: "IntEvaluator \<Rightarrow> IntEvaluator BoolOperator"
  LesserThan :: "IntEvaluator \<Rightarrow> IntEvaluator BoolOperator"
  LesserOrEqualThan :: "IntEvaluator \<Rightarrow> IntEvaluator BoolOperator"
  GreaterThan :: "IntEvaluator \<Rightarrow> IntEvaluator BoolOperator"
  GreaterOrEqualThan :: "IntEvaluator \<Rightarrow> IntEvaluator BoolOperator"
  DurationLesserThan :: "IntEvaluator \<Rightarrow> IntEvaluator BoolOperator"
  DurationLesserOrEqualThan :: "IntEvaluator \<Rightarrow> IntEvaluator BoolOperator"
  DurationGreaterThan :: "IntEvaluator \<Rightarrow> IntEvaluator BoolOperator"
  DurationGreaterOrEqualThan :: "IntEvaluator \<Rightarrow> IntEvaluator BoolOperator"
  ArrayIntEquals :: "IntEvaluator \<Rightarrow> IntArrayEvaluator BoolOperator"
  ArrayIntLesserThan :: "IntEvaluator \<Rightarrow> IntArrayEvaluator BoolOperator"
  ArrayIntLesserOrEqualThan :: "IntEvaluator \<Rightarrow> IntArrayEvaluator BoolOperator"
  ArrayIntGreaterThan :: "IntEvaluator \<Rightarrow> IntArrayEvaluator BoolOperator"
  ArrayIntGreaterOrEqualThan :: "IntEvaluator \<Rightarrow> IntArrayEvaluator BoolOperator"
  ArrayIntMatches :: "IntArrayEvaluator \<Rightarrow> IntArrayEvaluator BoolOperator"
  compilePattern :: "StringEvaluator \<Rightarrow> string + StringEvaluator"
  Compile :: "StringEvaluator \<Rightarrow> string + StringEvaluator"
  IntArray_AppendMembers :: "int list \<Rightarrow> IntArrayEvaluator"
  StringArray_AppendMembers :: "StringMember list \<Rightarrow> string + StringArrayEvaluator"
  RandString :: "nat \<Rightarrow> nat \<Rightarrow> string"

text \<open>
  Modelled from the spec: \<open>Not\<close> is not part of the sources at hand. The evaluator of a
  negation yields, for every context, the negation of its operand's result: a static
  value is negated at once, a deferred function is wrapped. The weight is kept.
\<close>

definition Not_ev :: "BoolEvaluator \<Rightarrow> Opts \<Rightarrow> state \<Rightarrow> BoolEvaluator" where
  "Not_ev a opts st =
     (case Bool_EvalFnc a of
        Some f \<Rightarrow> \<lparr>Bool_EvalFnc = Some (\<lambda>ctx. \<not> f ctx), Bool_Value = False,
                   Bool_Weight = Bool_Weight a\<rparr>
      | None \<Rightarrow> \<lparr>Bool_EvalFnc = None, Bool_Value = (\<not> Bool_Value a),
                 Bool_Weight = Bool_Weight a\<rparr>)"

subsection \<open>Resolving an identifier\<close>

text \<open>\<open>strings.Split(s, ".")\<close> for a separator of one character; \<open>acc\<close> is reversed.\<close>

fun strings_Split :: "char \<Rightarrow> string \<Rightarrow> string \<Rightarrow> string list" where
  "strings_Split sep acc [] = [rev acc]"
| "strings_Split sep acc (c # cs) =
     (if c = sep then rev acc # strings_Split sep [] cs
      else strings_Split sep (c # acc) cs)"

text \<open>
  The two lookups in the table of legacy attributes. Both look up the normalized field,
  the second one after the first has replaced it.
\<close>

definition legacyFields :: "Opts \<Rightarrow> Field \<Rightarrow> Field \<Rightarrow> Field \<times> Field" where
  "legacyFields opts f itField =
     (case LegacyAttributes opts of
        None \<Rightarrow> (f, itField)
      | Some la \<Rightarrow>
          (let f1 = (case la f of Some newField \<Rightarrow> newField | None \<Rightarrow> f);
               itField1 = (case la f1 of Some newField \<Rightarrow> newField | None \<Rightarrow> itField)
           in (f1, itField1)))"

text \<open>
  The loop over the nodes of the field: the candidate grows by one node each time, the
  first candidate that the model knows ends the loop, and the iterator of the last call
  is what the loop leaves behind.
\<close>

fun detectIterator :: "Model \<Rightarrow> string \<Rightarrow> string list \<Rightarrow> Iterator option \<Rightarrow> Iterator option" where
  "detectIterator m candidate [] it = it"
| "detectIterator m candidate (node # nodes) it =
     (let candidate' = (if candidate = [] then node else candidate @ ''.'' @ node);
          r = GetIterator m candidate'
      in if snd r = None then fst r else detectIterator m candidate' nodes (fst r))"

definition extractIterator :: "Model \<Rightarrow> Field \<Rightarrow> Field \<Rightarrow> error + Iterator option" where
  "extractIterator m f itField =
     (if itField \<noteq> [] then
        (case GetIterator m itField of
           (it, Some err) \<Rightarrow> Inl err
         | (it, None) \<Rightarrow> Inr it)
      else Inr (detectIterator m [] (strings_Split CHR ''.'' [] f) None))"

text \<open>
  The block under \<open>if iterator != nil\<close>: the register id is checked, a generated id
  replaces the placeholder, and the register is bound or extended. The result is the
  error or the register id in use afterwards, with the state as the block leaves it.
\<close>

definition bindRegister ::
  "Operators \<Rightarrow> Position \<Rightarrow> Field \<Rightarrow> Field \<Rightarrow> RegisterID \<Rightarrow> Iterator option \<Rightarrow> state
     \<Rightarrow> (error + RegisterID) \<times> state" where
  "bindRegister ops pos f itField regID it s =
     (case it of
        None \<Rightarrow> (Inr regID, s)
      | Some iter \<Rightarrow>
          if regID \<noteq> [] \<and> regID \<noteq> ''_''
          then (Inl (ErrRegisterNameNotAllowed pos regID ''only `_` is supported''), s)
          else
            (let (regID1, s1) =
                   (if regID = [] \<or> regID = ''_''
                    then (RandString ops (randCalls s) 8, s\<lparr>randCalls := Suc (randCalls s)\<rparr>)
                    else (regID, s))
             in case registersInfo s1 regID1 of
                  Some info \<Rightarrow>
                    if reg_field info \<noteq> itField
                    then (Inl (ErrRegisterMultipleFields pos regID1 ''used by multiple fields''), s1)
                    else (Inr regID1,
                          s1\<lparr>registersInfo := (registersInfo s1)
                               (regID1 \<mapsto> info\<lparr>reg_subFields := (reg_subFields info)(f \<mapsto> True)\<rparr>)\<rparr>)
                | None \<Rightarrow>
                    (Inr regID1,
                     s1\<lparr>registersInfo := (registersInfo s1)
                          (regID1 \<mapsto> \<lparr>reg_iterator = iter, reg_field = itField,
                                      reg_subFields = [f \<mapsto> True]\<rparr>)\<rparr>)))"

text \<open>
  \<open>identToEvaluator\<close>, for the identifier \<open>ident\<close> at position \<open>pos\<close>: the compiled
  value or the error, the position, and the compile state afterwards.
\<close>

type_synonym result = "(error + Evaluator) \<times> Position"

definition identToEvaluator ::
  "Operators \<Rightarrow> Opts \<Rightarrow> Position \<Rightarrow> string \<Rightarrow> state \<Rightarrow> result \<times> state" where
  "identToEvaluator ops opts pos ident s =
     (case Constants opts ident of
        Some accessor \<Rightarrow> ((Inr accessor, pos), s)
      | None \<Rightarrow>
     (case macroValue s ident of
        Some v \<Rightarrow> ((Inr v, pos), s)
      | None \<Rightarrow>
     (case extractField ident of
        Inl err \<Rightarrow> ((Inl err, pos), s)
      | Inr (f0, itField0, regID0) \<Rightarrow>
     (case legacyFields opts f0 itField0 of (f, itField) \<Rightarrow>
     (case extractIterator (model s) f itField of
        Inl err \<Rightarrow> ((Inl err, pos), s)
      | Inr it \<Rightarrow>
     (case bindRegister ops pos f itField regID0 it s of
        (Inl err, s1) \<Rightarrow> ((Inl err, pos), s1)
      | (Inr regID, s1) \<Rightarrow>
     (case GetEvaluator (model s1) f regID of
        Inl err \<Rightarrow> ((Inl err, pos), s1)
      | Inr accessor \<Rightarrow> ((Inr accessor, pos), UpdateFields f s1))))))))"

subsection \<open>The syntax tree\<close>

text \<open>
  The node types of package \<open>ast\<close>, as the compiler reads them. A pointer that the
  compiler tests against nil, or follows only under such a test, is an option; a pointer
  that it always follows (a part the grammar always provides) is the node itself.
\<close>

record Array =
  Array_Pos :: Position
  Numbers :: "int list"
  StringMembers :: "StringMember list"
  Array_Ident :: "string option"

datatype ArrayComparison =
  ArrayComparison (ArrayComparison_Pos: Position) (ArrayComparison_Op: string)
    (ArrayComparison_Array: Array)

datatype BooleanExpression =
    BooleanExpression (BooleanExpression_Expression: Expression)
and Expression =
    Expression (Expression_Pos: Position) (Expression_Comparison: Comparison)
      (Expression_Op: "string option") (Expression_Next: "BooleanExpression option")
and Comparison =
    Comparison (Comparison_Pos: Position) (Comparison_BitOperation: BitOperation)
      (Comparison_ScalarComparison: "ScalarComparison option")
      (Comparison_ArrayComparison: "ArrayComparison option")
and ScalarComparison =
    ScalarComparison (ScalarComparison_Pos: Position) (ScalarComparison_Op: string)
      (ScalarComparison_Next: Comparison)
and BitOperation =
    BitOperation (BitOperation_Pos: Position) (BitOperation_Unary: Unary)
      (BitOperation_Op: "string option") (BitOperation_Next: "BitOperation option")
and Unary =
    Unary (Unary_Pos: Position) (Unary_Op: "string option") (Unary_Unary: "Unary option")
      (Unary_Primary: "Primary option")
and Primary =
    Primary (Primary_Pos: Position) (Primary_Ident: "string option")
      (Primary_Number: "int option") (Primary_Duration: "int option")
      (Primary_String: "string option") (Primary_Pattern: "string option")
      (Primary_Regexp: "string option") (Primary_SubExpression: "Expression option")

subsection \<open>Arrays\<close>

text \<open>
  \<open>arrayToEvaluator\<close>. The array of numbers is returned by value. For an array of
  strings the source holds both sides of an unresolved merge; both build the array member
  by member and fail with \<open>NewError(array.Pos, ...)\<close>, which is what the parameter
  \<open>StringArray_AppendMembers\<close> stands for.
\<close>

definition arrayToEvaluator :: "Operators \<Rightarrow> Opts \<Rightarrow> Array \<Rightarrow> state \<Rightarrow> result \<times> state" where
  "arrayToEvaluator ops opts array s =
     (if length (Numbers array) \<noteq> 0
      then ((Inr (IntArrayValue (IntArray_AppendMembers ops (Numbers array))), Array_Pos array), s)
      else if length (StringMembers array) \<noteq> 0
      then (case StringArray_AppendMembers ops (StringMembers array) of
              Inl msg \<Rightarrow> ((Inl (ErrAstToEval (Array_Pos array) msg), Array_Pos array), s)
            | Inr evaluator \<Rightarrow> ((Inr (StringArrayEv evaluator), Array_Pos array), s))
      else (case Array_Ident array of
              Some ident \<Rightarrow>
                (case macroValue s ident of
                   Some v \<Rightarrow> ((Inr v, Array_Pos array), s)
                 | None \<Rightarrow> identToEvaluator ops opts (Array_Pos array) ident s)
            | None \<Rightarrow>
                ((Inl (ErrAstToEval (Array_Pos array) ''unknow array element type''),
                  Array_Pos array), s)))"

subsection \<open>Applying an operator to compiled operands\<close>

text \<open>
  The blocks that follow a call of an operator: the error is returned at \<open>errPos\<close>, the
  evaluator at the node's position, as it is or under \<open>Not\<close>.
\<close>

definition asIs :: "error + BoolEvaluator \<Rightarrow> Position \<Rightarrow> Position \<Rightarrow> result" where
  "asIs r objPos errPos =
     (case r of Inl err \<Rightarrow> (Inl err, errPos) | Inr b \<Rightarrow> (Inr (BoolEv b), objPos))"

definition negated ::
  "error + BoolEvaluator \<Rightarrow> Opts \<Rightarrow> state \<Rightarrow> Position \<Rightarrow> Position \<Rightarrow> result" where
  "negated r opts st objPos errPos =
     (case r of
        Inl err \<Rightarrow> (Inl err, errPos)
      | Inr b \<Rightarrow> (Inr (BoolEv (Not_ev b opts st)), objPos))"

definition asInt :: "error + IntEvaluator \<Rightarrow> Position \<Rightarrow> Position \<Rightarrow> result" where
  "asInt r objPos errPos =
     (case r of Inl err \<Rightarrow> (Inl err, errPos) | Inr i \<Rightarrow> (Inr (IntEv i), objPos))"

text \<open>The value returned when no case of the outer type switch has returned.\<close>

definition unknownEntity :: "string \<Rightarrow> result" where
  "unknownEntity ty = (Inl (ErrAstToEval NoPosition (''unknown entity '' @ [CHR 0x27] @ ty @ [CHR 0x27])), NoPosition)"

text \<open>The operator of an \<open>Expression\<close>, once both operands are boolean evaluators.\<close>

definition applyLogical ::
  "Operators \<Rightarrow> Opts \<Rightarrow> state \<Rightarrow> Position \<Rightarrow> Position \<Rightarrow> string
     \<Rightarrow> BoolEvaluator \<Rightarrow> BoolEvaluator \<Rightarrow> result" where
  "applyLogical ops opts st objPos pos op cmpBool nextBool =
     (if op = ''||'' \<or> op = ''or'' then asIs (Or ops cmpBool nextBool opts st) objPos objPos
      else if op = ''&&'' \<or> op = ''and'' then asIs (And ops cmpBool nextBool opts st) objPos objPos
      else (Inl (ErrOpUnknown objPos op), pos))"

text \<open>The operator of a \<open>BitOperation\<close>, once both operands are integer evaluators.\<close>

definition applyBitwise ::
  "Operators \<Rightarrow> Opts \<Rightarrow> state \<Rightarrow> Position \<Rightarrow> Position \<Rightarrow> string
     \<Rightarrow> IntEvaluator \<Rightarrow> IntEvaluator \<Rightarrow> result" where
  "applyBitwise ops opts st objPos pos op bitInt nextInt =
     (if op = ''&'' then asInt (IntAnd ops bitInt nextInt opts st) objPos pos
      else if op = ''|'' then asInt (IntOr ops bitInt nextInt opts st) objPos pos
      else if op = ''^'' then asInt (IntXor ops bitInt nextInt opts st) objPos pos
      else (Inl (ErrOpUnknown objPos op), pos))"

text \<open>The operator of a \<open>Unary\<close> applied to its compiled operand.\<close>

definition applyUnary ::
  "Operators \<Rightarrow> Opts \<Rightarrow> state \<Rightarrow> Position \<Rightarrow> Position \<Rightarrow> string \<Rightarrow> Evaluator \<Rightarrow> result" where
  "applyUnary ops opts st objPos pos op unary =
     (if op = ''!'' \<or> op = ''not'' then
        (case unary of
           BoolEv unaryBool \<Rightarrow> (Inr (BoolEv (Not_ev unaryBool opts st)), objPos)
         | _ \<Rightarrow> (Inl (ErrTypeError pos reflect_Bool), pos))
      else if op = ''-'' then
        (case unary of
           IntEv unaryInt \<Rightarrow> (Inr (IntEv (Minus ops unaryInt opts st)), pos)
         | _ \<Rightarrow> (Inl (ErrTypeError pos reflect_Int), pos))
      else if op = ''^'' then
        (case unary of
           IntEv unaryInt \<Rightarrow> (Inr (IntEv (IntNot ops unaryInt opts st)), pos)
         | _ \<Rightarrow> (Inl (ErrTypeError pos reflect_Int), pos))
      else (Inl (ErrOpUnknown objPos op), pos))"

text \<open>
  The array comparison of a \<open>Comparison\<close>: the type switch on the left operand and, in
  each case, on the right one. \<open>membership\<close> is the block after each operator call.
\<close>

definition membership ::
  "error + BoolEvaluator \<Rightarrow> Opts \<Rightarrow> state \<Rightarrow> Position \<Rightarrow> Position \<Rightarrow> string \<Rightarrow> result" where
  "membership r opts st objPos pos op =
     (case r of
        Inl err \<Rightarrow> (Inl err, pos)
      | Inr b \<Rightarrow>
          if op = ''notin'' then (Inr (BoolEv (Not_ev b opts st)), objPos)
          else (Inr (BoolEv b), objPos))"

definition compareArray ::
  "Operators \<Rightarrow> Opts \<Rightarrow> state \<Rightarrow> Position \<Rightarrow> Position \<Rightarrow> string
     \<Rightarrow> Evaluator \<Rightarrow> Evaluator \<Rightarrow> result" where
  "compareArray ops opts st objPos pos op unary next =
     (case unary of
        BoolEv u \<Rightarrow>
          (case next of
             BoolArrayEv nextBool \<Rightarrow>
               membership (ArrayBoolContains ops u nextBool opts st) opts st objPos pos op
           | _ \<Rightarrow> (Inl (ErrTypeError pos reflect_Array), pos))
      | StringEv u \<Rightarrow>
          (case next of
             StringArrayEv nextString \<Rightarrow>
               membership (ArrayStringContains ops u nextString opts st) opts st objPos pos op
           | _ \<Rightarrow> (Inl (ErrTypeError pos reflect_Array), pos))
      | StringArrayEv u \<Rightarrow>
          (case next of
             StringArrayEv nextStringArray \<Rightarrow>
               membership (ArrayStringMatches ops u nextStringArray opts st) opts st objPos pos op
           | _ \<Rightarrow> (Inl (ErrTypeError pos reflect_Array), pos))
      | IntEv u \<Rightarrow>
          (case next of
             IntArrayEv nextInt \<Rightarrow>
               membership (ArrayIntEquals ops u nextInt opts st) opts st objPos pos op
           | _ \<Rightarrow> (Inl (ErrTypeError pos reflect_Array), pos))
      | IntArrayEv u \<Rightarrow>
          (case next of
             IntArrayEv nextIntArray \<Rightarrow>
               membership (ArrayIntMatches ops u nextIntArray opts st) opts st objPos pos op
           | _ \<Rightarrow> (Inl (ErrTypeError pos reflect_Array), pos))
      | _ \<Rightarrow> (Inl (ErrTypeError pos reflect_Array), pos))"

text \<open>
  The right operand of \<open>=~\<close> and \<open>!~\<close>: it must be static, and its pattern is compiled
  here. The result is the error to return or the operand as compiled.
\<close>

definition staticPattern :: "Operators \<Rightarrow> Position \<Rightarrow> StringEvaluator \<Rightarrow> error + StringEvaluator" where
  "staticPattern ops objPos nextString =
     (if String_EvalFnc nextString \<noteq> None
      then Inl (ErrNonStaticPattern (String_Field nextString))
      else (case compilePattern ops nextString of
              Inl msg \<Rightarrow> Inl (ErrAstToEval objPos msg)
            | Inr compiled \<Rightarrow> Inr compiled))"

text \<open>The equality of two strings under \<open>==\<close>, with the override tables.\<close>

definition stringEqualsWithOverrides ::
  "Operators \<Rightarrow> Opts \<Rightarrow> state \<Rightarrow> StringEvaluator \<Rightarrow> StringEvaluator \<Rightarrow> error + BoolEvaluator" where
  "stringEqualsWithOverrides ops opts st unary nextString =
     (case (case String_OpOverrides unary of
              None \<Rightarrow> None | Some t \<Rightarrow> OpOverrides_StringEquals t) of
        Some h \<Rightarrow> StringEquals_override ops h unary nextString opts st
      | None \<Rightarrow>
          (case (case String_OpOverrides nextString of
                   None \<Rightarrow> None | Some t \<Rightarrow> OpOverrides_StringEquals t) of
             Some h \<Rightarrow> StringEquals_override ops h unary nextString opts st
           | None \<Rightarrow> StringEquals ops unary nextString opts st))"

text \<open>
  The scalar comparison of a \<open>Comparison\<close>: the type switch on the left operand, the
  type of the right operand, and the switch on the operator. Where the Go code leaves a
  switch without returning, the value is the one it reaches afterwards.
\<close>

definition compareScalar ::
  "Operators \<Rightarrow> Opts \<Rightarrow> state \<Rightarrow> Position \<Rightarrow> Position \<Rightarrow> string
     \<Rightarrow> Evaluator \<Rightarrow> Evaluator \<Rightarrow> result" where
  "compareScalar ops opts st objPos pos op unary next =
     (case unary of
        BoolEv u \<Rightarrow>
          (case next of
             BoolEv nextBool \<Rightarrow>
               if op = ''!='' then negated (BoolEquals ops u nextBool opts st) opts st objPos pos
               else if op = ''=='' then asIs (BoolEquals ops u nextBool opts st) objPos pos
               else (Inl (ErrOpUnknown objPos op), pos)
           | _ \<Rightarrow> (Inl (ErrTypeError pos reflect_Bool), pos))
      | BoolArrayEv u \<Rightarrow>
          (case next of
             BoolEv nextBool \<Rightarrow>
               if op = ''!='' then negated (ArrayBoolEquals ops nextBool u opts st) opts st objPos pos
               else if op = ''=='' then asIs (ArrayBoolEquals ops nextBool u opts st) objPos pos
               else (Inl (ErrOpUnknown objPos op), pos)
           | _ \<Rightarrow> (Inl (ErrTypeError pos reflect_Bool), pos))
      | StringEv u \<Rightarrow>
          (case next of
             StringEv nextString \<Rightarrow>
               if op = ''!='' then
                 negated (StringEquals ops u nextString opts st) opts st objPos objPos
               else if op = ''!~'' then
                 (case staticPattern ops objPos nextString of
                    Inl err \<Rightarrow> (Inl err, objPos)
                  | Inr compiled \<Rightarrow>
                      negated (StringEquals ops u compiled opts st) opts st objPos objPos)
               else if op = ''=='' then
                 asIs (stringEqualsWithOverrides ops opts st u nextString) objPos objPos
               else if op = ''=~'' then
                 (case staticPattern ops objPos nextString of
                    Inl err \<Rightarrow> (Inl err, objPos)
                  | Inr compiled \<Rightarrow> asIs (StringEquals ops u compiled opts st) objPos objPos)
               else (Inl (ErrOpUnknown objPos op), pos)
           | _ \<Rightarrow> (Inl (ErrTypeError pos reflect_String), pos))
      | StringArrayEv u \<Rightarrow>
          (case next of
             StringEv nextString \<Rightarrow>
               if op = ''!='' then
                 negated (ArrayStringContains ops nextString u opts st) opts st objPos objPos
               else if op = ''=='' then
                 asIs (ArrayStringContains ops nextString u opts st) objPos objPos
               else if op = ''!~'' then
                 (case staticPattern ops objPos nextString of
                    Inl err \<Rightarrow> (Inl err, objPos)
                  | Inr compiled \<Rightarrow>
                      negated (ArrayStringContains ops compiled u opts st) opts st objPos objPos)
               else if op = ''=~'' then
                 (case staticPattern ops objPos nextString of
                    Inl err \<Rightarrow> (Inl err, objPos)
                  | Inr compiled \<Rightarrow>
                      asIs (ArrayStringContains ops compiled u opts st) objPos objPos)
               else unknownEntity ''*ast.Comparison''
           | _ \<Rightarrow> (Inl (ErrTypeError pos reflect_String), pos))
      | IntEv u \<Rightarrow>
          (case next of
             IntEv nextInt \<Rightarrow>
               if isDuration nextInt then
                 (if op = ''<'' then asIs (DurationLesserThan ops u nextInt opts st) objPos objPos
                  else if op = ''<='' then
                    asIs (DurationLesserOrEqualThan ops u nextInt opts st) objPos objPos
                  else if op = ''>'' then
                    asIs (DurationGreaterThan ops u nextInt opts st) objPos objPos
                  else if op = ''>='' then
                    asIs (DurationGreaterOrEqualThan ops u nextInt opts st) objPos objPos
                  else (Inl (ErrTypeError pos reflect_Int), pos))
               else
                 (if op = ''<'' then asIs (LesserThan ops u nextInt opts st) objPos objPos
                  else if op = ''<='' then
                    asIs (LesserOrEqualThan ops u nextInt opts st) objPos objPos
                  else if op = ''>'' then asIs (GreaterThan ops u nextInt opts st) objPos objPos
                  else if op = ''>='' then
                    asIs (GreaterOrEqualThan ops u nextInt opts st) objPos objPos
                  else if op = ''!='' then
                    negated (IntEquals ops u nextInt opts st) opts st objPos objPos
                  else if op = ''=='' then asIs (IntEquals ops u nextInt opts st) objPos objPos
                  else (Inl (ErrOpUnknown objPos op), pos))
           | IntArrayEv nextIntArray \<Rightarrow>
               if op = ''<'' then
                 asIs (ArrayIntLesserThan ops u nextIntArray opts st) objPos objPos
               else if op = ''<='' then
                 asIs (ArrayIntLesserOrEqualThan ops u nextIntArray opts st) objPos objPos
               else if op = ''>'' then
                 asIs (ArrayIntGreaterThan ops u nextIntArray opts st) objPos objPos
               else if op = ''>='' then
                 asIs (ArrayIntGreaterOrEqualThan ops u nextIntArray opts st) objPos objPos
               else if op = ''!='' then
                 negated (ArrayIntEquals ops u nextIntArray opts st) opts st objPos objPos
               else if op = ''=='' then
                 asIs (ArrayIntEquals ops u nextIntArray opts st) objPos objPos
               else (Inl (ErrOpUnknown objPos op), pos)
           | _ \<Rightarrow> (Inl (ErrTypeError pos reflect_Int), pos))
      | IntArrayEv u \<Rightarrow>
          (case next of
             IntEv nextInt \<Rightarrow>
               if op = ''<'' then asIs (ArrayIntGreaterThan ops nextInt u opts st) objPos objPos
               else if op = ''<='' then
                 asIs (ArrayIntGreaterOrEqualThan ops nextInt u opts st) objPos objPos
               else if op = ''>'' then
                 asIs (ArrayIntLesserThan ops nextInt u opts st) objPos objPos
               else if op = ''>='' then
                 asIs (ArrayIntLesserOrEqualThan ops nextInt u opts st) objPos objPos
               else if op = ''!='' then
                 negated (ArrayIntEquals ops nextInt u opts st) opts st objPos objPos
               else if op = ''=='' then
                 asIs (ArrayIntEquals ops nextInt u opts st) objPos objPos
               else (Inl (ErrOpUnknown objPos op), pos)
           | _ \<Rightarrow> (Inl (ErrTypeError pos reflect_Int), pos))
      | _ \<Rightarrow> unknownEntity ''*ast.Comparison'')"

subsection \<open>Compiling a node\<close>

text \<open>
  The literals of a \<open>Primary\<close>: the composite literals of the Go code, the fields that
  they do not name at their zero value.
\<close>

definition intLiteral :: "int \<Rightarrow> bool \<Rightarrow> IntEvaluator" where
  "intLiteral n d = \<lparr>Int_EvalFnc = None, Int_Value = n, isDuration = d\<rparr>"

definition stringLiteral :: "string \<Rightarrow> FieldValueType \<Rightarrow> StringEvaluator" where
  "stringLiteral v t =
     \<lparr>String_EvalFnc = None, String_Field = [], String_Value = v, String_ValueType = t,
      String_regexp = None, String_OpOverrides = None\<rparr>"

definition compiledLiteral :: "Operators \<Rightarrow> Position \<Rightarrow> StringEvaluator \<Rightarrow> result" where
  "compiledLiteral ops objPos evaluator =
     (case Compile ops evaluator of
        Inl msg \<Rightarrow> (Inl (ErrAstToEval objPos msg), objPos)
      | Inr compiled \<Rightarrow> (Inr (StringEv compiled), objPos))"

definition nilDereference :: result where
  "nilDereference = (Inl PanicNilDereference, NoPosition)"

text \<open>The cases \<open>*ast.Array\<close> and \<open>*ast.ArrayComparison\<close> of the type switch.\<close>

definition nodeToEvaluator_Array :: "Operators \<Rightarrow> Opts \<Rightarrow> Array \<Rightarrow> state \<Rightarrow> result \<times> state" where
  "nodeToEvaluator_Array ops opts array s = arrayToEvaluator ops opts array s"

definition nodeToEvaluator_ArrayComparison ::
  "Operators \<Rightarrow> Opts \<Rightarrow> ArrayComparison \<Rightarrow> state \<Rightarrow> result \<times> state" where
  "nodeToEvaluator_ArrayComparison ops opts a s =
     nodeToEvaluator_Array ops opts (ArrayComparison_Array a) s"

text \<open>
  \<open>nodeToEvaluator\<close>, one function for each case of its type switch on the node. The
  compile state goes through the calls in the order of the Go code.
\<close>

fun nodeToEvaluator_BooleanExpression ::
      "Operators \<Rightarrow> Opts \<Rightarrow> BooleanExpression \<Rightarrow> state \<Rightarrow> result \<times> state"
  and nodeToEvaluator_Expression ::
      "Operators \<Rightarrow> Opts \<Rightarrow> Expression \<Rightarrow> state \<Rightarrow> result \<times> state"
  and nodeToEvaluator_Comparison ::
      "Operators \<Rightarrow> Opts \<Rightarrow> Comparison \<Rightarrow> state \<Rightarrow> result \<times> state"
  and nodeToEvaluator_ScalarComparison ::
      "Operators \<Rightarrow> Opts \<Rightarrow> ScalarComparison \<Rightarrow> state \<Rightarrow> result \<times> state"
  and nodeToEvaluator_BitOperation ::
      "Operators \<Rightarrow> Opts \<Rightarrow> BitOperation \<Rightarrow> state \<Rightarrow> result \<times> state"
  and nodeToEvaluator_Unary ::
      "Operators \<Rightarrow> Opts \<Rightarrow> Unary \<Rightarrow> state \<Rightarrow> result \<times> state"
  and nodeToEvaluator_Primary ::
      "Operators \<Rightarrow> Opts \<Rightarrow> Primary \<Rightarrow> state \<Rightarrow> result \<times> state"
where
  "nodeToEvaluator_BooleanExpression ops opts (BooleanExpression e) s =
     nodeToEvaluator_Expression ops opts e s"
| "nodeToEvaluator_Expression ops opts (Expression objPos c op nxt) s =
     (case nodeToEvaluator_Comparison ops opts c s of
        ((Inl err, pos), s1) \<Rightarrow> ((Inl err, pos), s1)
      | ((Inr cmp, pos), s1) \<Rightarrow>
          (case op of
             None \<Rightarrow> ((Inr cmp, objPos), s1)
           | Some opName \<Rightarrow>
               (case cmp of
                  BoolEv cmpBool \<Rightarrow>
                    (case nxt of
                       None \<Rightarrow> (nilDereference, s1)
                     | Some n \<Rightarrow>
                         (case nodeToEvaluator_BooleanExpression ops opts n s1 of
                            ((Inl err, pos2), s2) \<Rightarrow> ((Inl err, pos2), s2)
                          | ((Inr next, pos2), s2) \<Rightarrow>
                              (case next of
                                 BoolEv nextBool \<Rightarrow>
                                   (applyLogical ops opts s2 objPos pos2 opName cmpBool nextBool, s2)
                               | _ \<Rightarrow> ((Inl (ErrTypeError pos2 reflect_Bool), pos2), s2))))
                | _ \<Rightarrow> ((Inl (ErrTypeError objPos reflect_Bool), objPos), s1))))"
| "nodeToEvaluator_Comparison ops opts (Comparison objPos b sc ac) s =
     (case nodeToEvaluator_BitOperation ops opts b s of
        ((Inl err, pos), s1) \<Rightarrow> ((Inl err, pos), s1)
      | ((Inr unary, pos), s1) \<Rightarrow>
          (case ac of
             Some a \<Rightarrow>
               (case nodeToEvaluator_ArrayComparison ops opts a s1 of
                  ((Inl err, pos2), s2) \<Rightarrow> ((Inl err, pos2), s2)
                | ((Inr next, pos2), s2) \<Rightarrow>
                    (compareArray ops opts s2 objPos pos2 (ArrayComparison_Op a) unary next, s2))
           | None \<Rightarrow>
               (case sc of
                  Some c \<Rightarrow>
                    (case nodeToEvaluator_ScalarComparison ops opts c s1 of
                       ((Inl err, pos2), s2) \<Rightarrow> ((Inl err, pos2), s2)
                     | ((Inr next, pos2), s2) \<Rightarrow>
                         (compareScalar ops opts s2 objPos pos2 (ScalarComparison_Op c) unary next, s2))
                | None \<Rightarrow> ((Inr unary, pos), s1))))"
| "nodeToEvaluator_ScalarComparison ops opts (ScalarComparison objPos op n) s =
     nodeToEvaluator_Comparison ops opts n s"
| "nodeToEvaluator_BitOperation ops opts (BitOperation objPos u op nxt) s =
     (case nodeToEvaluator_Unary ops opts u s of
        ((Inl err, pos), s1) \<Rightarrow> ((Inl err, pos), s1)
      | ((Inr unary, pos), s1) \<Rightarrow>
          (case op of
             None \<Rightarrow> ((Inr unary, objPos), s1)
           | Some opName \<Rightarrow>
               (case unary of
                  IntEv bitInt \<Rightarrow>
                    (case nxt of
                       None \<Rightarrow> (nilDereference, s1)
                     | Some n \<Rightarrow>
                         (case nodeToEvaluator_BitOperation ops opts n s1 of
                            ((Inl err, pos2), s2) \<Rightarrow> ((Inl err, pos2), s2)
                          | ((Inr next, pos2), s2) \<Rightarrow>
                              (case next of
                                 IntEv nextInt \<Rightarrow>
                                   (applyBitwise ops opts s2 objPos pos2 opName bitInt nextInt, s2)
                               | _ \<Rightarrow> ((Inl (ErrTypeError pos2 reflect_Int), pos2), s2))))
                | _ \<Rightarrow> ((Inl (ErrTypeError objPos reflect_Int), objPos), s1))))"
| "nodeToEvaluator_Unary ops opts (Unary objPos op u p) s =
     (case op of
        Some opName \<Rightarrow>
          (case u of
             None \<Rightarrow> (nilDereference, s)
           | Some n \<Rightarrow>
               (case nodeToEvaluator_Unary ops opts n s of
                  ((Inl err, pos), s1) \<Rightarrow> ((Inl err, pos), s1)
                | ((Inr unary, pos), s1) \<Rightarrow> (applyUnary ops opts s1 objPos pos opName unary, s1)))
      | None \<Rightarrow>
          (case p of
             None \<Rightarrow> (nilDereference, s)
           | Some n \<Rightarrow> nodeToEvaluator_Primary ops opts n s))"
| "nodeToEvaluator_Primary ops opts
       (Primary objPos ident number duration str pattern regex sub) s =
     (case ident of
        Some i \<Rightarrow> identToEvaluator ops opts objPos i s
      | None \<Rightarrow>
     (case number of
        Some n \<Rightarrow> ((Inr (IntEv (intLiteral n False)), objPos), s)
      | None \<Rightarrow>
     (case duration of
        Some d \<Rightarrow> ((Inr (IntEv (intLiteral d True)), objPos), s)
      | None \<Rightarrow>
     (case str of
        Some v \<Rightarrow> ((Inr (StringEv (stringLiteral v ScalarValueType)), objPos), s)
      | None \<Rightarrow>
     (case pattern of
        Some v \<Rightarrow> (compiledLiteral ops objPos (stringLiteral v PatternValueType), s)
      | None \<Rightarrow>
     (case regex of
        Some v \<Rightarrow> (compiledLiteral ops objPos (stringLiteral v RegexpValueType), s)
      | None \<Rightarrow>
     (case sub of
        Some e \<Rightarrow> nodeToEvaluator_Expression ops opts e s
      | None \<Rightarrow>
          ((Inl (ErrAstToEval objPos (''unknown primary '' @ [CHR 0x27] @ ''*ast.Primary'' @ [CHR 0x27])),
            objPos), s))))))))"

text \<open>
  \<open>nodeToEvaluator\<close> itself: the type switch on the node. \<open>OtherNode\<close> is a value
  of any other type, for which no case returns.
\<close>

datatype node =
    Node_BooleanExpression BooleanExpression
  | Node_Expression Expression
  | Node_BitOperation BitOperation
  | Node_Comparison Comparison
  | Node_ArrayComparison ArrayComparison
  | Node_ScalarComparison ScalarComparison
  | Node_Unary Unary
  | Node_Primary Primary
  | Node_Array Array
  | OtherNode string

fun nodeToEvaluator :: "Operators \<Rightarrow> Opts \<Rightarrow> node \<Rightarrow> state \<Rightarrow> result \<times> state" where
  "nodeToEvaluator ops opts (Node_BooleanExpression obj) s =
     nodeToEvaluator_BooleanExpression ops opts obj s"
| "nodeToEvaluator ops opts (Node_Expression obj) s = nodeToEvaluator_Expression ops opts obj s"
| "nodeToEvaluator ops opts (Node_BitOperation obj) s =
     nodeToEvaluator_BitOperation ops opts obj s"
| "nodeToEvaluator ops opts (Node_Comparison obj) s = nodeToEvaluator_Comparison ops opts obj s"
| "nodeToEvaluator ops opts (Node_ArrayComparison obj) s =
     nodeToEvaluator_ArrayComparison ops opts obj s"
| "nodeToEvaluator ops opts (Node_ScalarComparison obj) s =
     nodeToEvaluator_ScalarComparison ops opts obj s"
| "nodeToEvaluator ops opts (Node_Unary obj) s = nodeToEvaluator_Unary ops opts obj s"
| "nodeToEvaluator ops opts (Node_Primary obj) s = nodeToEvaluator_Primary ops opts obj s"
| "nodeToEvaluator ops opts (Node_Array obj) s = nodeToEvaluator_Array ops opts obj s"
| "nodeToEvaluator ops opts (OtherNode ty) s = (unknownEntity ty, s)"

subsection \<open>Sample collaborators\<close>

text \<open>
  Stand-ins for the collaborators, used where a statement is evaluated on a concrete
  rule. Each sample operator returns a static evaluator whose weight tells which operator
  built it. The sample model knows the iterators and the fields of two lists; the
  sample generator returns \<open>aaaaaaaa\<close> at its first call, \<open>bbbbbbbb\<close> at its second
  and \<open>cccccccc\<close> afterwards.
\<close>

definition sampleBool :: "int \<Rightarrow> bool \<Rightarrow> error + BoolEvaluator" where
  "sampleBool w v = Inr \<lparr>Bool_EvalFnc = None, Bool_Value = v, Bool_Weight = w\<rparr>"

definition sampleCompile :: "StringEvaluator \<Rightarrow> string + StringEvaluator" where
  "sampleCompile e =
     (if String_Value e = [] then Inl ''empty pattern''
      else Inr (e\<lparr>String_regexp := Some (String_Value e)\<rparr>))"

definition sampleOperators :: Operators where
  "sampleOperators =
     \<lparr>Or = (\<lambda>a b opts st. sampleBool 1 (Bool_Value a \<or> Bool_Value b)),
      And = (\<lambda>a b opts st. sampleBool 2 (Bool_Value a \<and> Bool_Value b)),
      IntAnd = (\<lambda>a b opts st. Inr a),
      IntOr = (\<lambda>a b opts st. Inr a),
      IntXor = (\<lambda>a b opts st. Inr a),
      Minus = (\<lambda>a opts st. a\<lparr>Int_Value := - Int_Value a\<rparr>),
      IntNot = (\<lambda>a opts st. a\<lparr>Int_Value := - Int_Value a - 1\<rparr>),
      BoolEquals = (\<lambda>a b opts st. sampleBool 3 (Bool_Value a = Bool_Value b)),
      ArrayBoolEquals = (\<lambda>a b opts st. sampleBool 4 (Bool_Value a \<in> set (BoolArray_Values b))),
      ArrayBoolContains = (\<lambda>a b opts st. sampleBool 5 (Bool_Value a \<in> set (BoolArray_Values b))),
      StringEquals = (\<lambda>a b opts st. sampleBool 6 (String_Value a = String_Value b)),
      StringEquals_override = (\<lambda>h a b opts st. sampleBool (100 + int h) True),
      ArrayStringContains =
        (\<lambda>a b opts st. sampleBool 7 (String_Value a \<in> set (StringArray_Values b))),
      ArrayStringMatches =
        (\<lambda>a b opts st. sampleBool 8 (set (StringArray_Values a) \<inter> set (StringArray_Values b) \<noteq> {})),
      IntEquals = (\<lambda>a b opts st. sampleBool 9 (Int_Value a = Int_Value b)),
      LesserThan = (\<lambda>a b opts st. sampleBool 10 (Int_Value a < Int_Value b)),
      LesserOrEqualThan = (\<lambda>a b opts st. sampleBool 11 (Int_Value a \<le> Int_Value b)),
      GreaterThan = (\<lambda>a b opts st. sampleBool 12 (Int_Value a > Int_Value b)),
      GreaterOrEqualThan = (\<lambda>a b opts st. sampleBool 13 (Int_Value a \<ge> Int_Value b)),
      DurationLesserThan = (\<lambda>a b opts st. sampleBool 20 (Int_Value a < Int_Value b)),
      DurationLesserOrEqualThan = (\<lambda>a b opts st. sampleBool 21 (Int_Value a \<le> Int_Value b)),
      DurationGreaterThan = (\<lambda>a b opts st. sampleBool 22 (Int_Value a > Int_Value b)),
      DurationGreaterOrEqualThan = (\<lambda>a b opts st. sampleBool 23 (Int_Value a \<ge> Int_Value b)),
      ArrayIntEquals = (\<lambda>a b opts st. sampleBool 30 (Int_Value a \<in> set (IntArray_Values b))),
      ArrayIntLesserThan = (\<lambda>a b opts st. sampleBool 31 False),
      ArrayIntLesserOrEqualThan = (\<lambda>a b opts st. sampleBool 32 False),
      ArrayIntGreaterThan = (\<lambda>a b opts st. sampleBool 33 False),
      ArrayIntGreaterOrEqualThan = (\<lambda>a b opts st. sampleBool 34 False),
      ArrayIntMatches =
        (\<lambda>a b opts st. sampleBool 35 (set (IntArray_Values a) \<inter> set (IntArray_Values b) \<noteq> {})),
      compilePattern = sampleCompile,
      Compile = sampleCompile,
      IntArray_AppendMembers = (\<lambda>ns. \<lparr>IntArray_EvalFnc = None, IntArray_Values = ns\<rparr>),
      StringArray_AppendMembers =
        (\<lambda>ms. Inr \<lparr>StringArray_EvalFnc = None,
                    StringArray_Values = map (\<lambda>m. case Member_String m of Some v \<Rightarrow> v | None \<Rightarrow> []) ms\<rparr>),
      RandString =
        (\<lambda>k n. if k = 0 then ''aaaaaaaa'' else if k = 1 then ''bbbbbbbb'' else ''cccccccc'')\<rparr>"

definition sampleField :: "Field \<Rightarrow> StringEvaluator" where
  "sampleField f =
     \<lparr>String_EvalFnc = Some (\<lambda>ctx. []), String_Field = f, String_Value = [],
      String_ValueType = ScalarValueType, String_regexp = None, String_OpOverrides = None\<rparr>"

definition sampleModel :: "Field list \<Rightarrow> Field list \<Rightarrow> Model" where
  "sampleModel iterators fieldNames =
     \<lparr>GetIterator =
        (\<lambda>f. if f \<in> set iterators then (Some (Iterator f), None)
             else (None, Some (ErrExternal (''iterator not found: '' @ f)))),
      GetEvaluator =
        (\<lambda>f r. if f \<in> set fieldNames then Inr (StringEv (sampleField f))
               else Inl (ErrExternal (''field not found: '' @ f)))\<rparr>"

definition sampleOpts :: "(Field \<rightharpoonup> Field) option \<Rightarrow> Opts" where
  "sampleOpts la = \<lparr>LegacyAttributes = la, Constants = Map.empty\<rparr>"

definition sampleState :: "Model \<Rightarrow> state" where
  "sampleState m =
     \<lparr>model = m, macros = None, registersInfo = Map.empty, referencedFields = {},
      randCalls = 0\<rparr>"

definition at :: "int \<Rightarrow> Position" where
  "at col = Position [] col 1 col"

subsection \<open>Vocabulary of the properties\<close>

text \<open>
  An identifier that resolves with the anonymous register: it is neither a constant nor
  a macro, its register is the placeholder \<open>_\<close> or is left out, and the model has
  an iterator for it. \<open>f\<close> and \<open>itField\<close> are the normalized field and the iterator
  field after the legacy lookups, \<open>it\<close> is the iterator.
\<close>

definition resolvesAnonymous ::
  "Opts \<Rightarrow> state \<Rightarrow> string \<Rightarrow> Field \<Rightarrow> Field \<Rightarrow> Iterator \<Rightarrow> bool" where
  "resolvesAnonymous opts s ident f itField it =
     (Constants opts ident = None \<and> macroValue s ident = None \<and>
      (case extractField ident of
         Inl err \<Rightarrow> False
       | Inr (f0, itField0, regID0) \<Rightarrow>
           (regID0 = [] \<or> regID0 = ''_'') \<and> legacyFields opts f0 itField0 = (f, itField)) \<and>
      extractIterator (model s) f itField = Inr (Some it))"

text \<open>
  Every register id that is bound in \<open>s\<close> is bound in \<open>s'\<close> too, to the same
  iterator field and the same iterator.
\<close>

definition registersKept :: "state \<Rightarrow> state \<Rightarrow> bool" where
  "registersKept s s' =
     (\<forall>rid info. registersInfo s rid = Some info \<longrightarrow>
        (\<exists>info'. registersInfo s' rid = Some info' \<and> reg_field info' = reg_field info \<and>
                 reg_iterator info' = reg_iterator info))"

subsection \<open>Sample states and rules\<close>

text \<open>
  A state of the sample model in which the first id of the sample generator is already
  bound, to the iterator field \<open>itField\<close> with the subfield \<open>f\<close>.
\<close>

definition boundState :: "Field \<Rightarrow> Field \<Rightarrow> state" where
  "boundState itField f =
     (sampleState (sampleModel [''a''] [''a.b'', ''a.c'']))
       \<lparr>registersInfo :=
          [''aaaaaaaa'' \<mapsto> \<lparr>reg_iterator = Iterator itField, reg_field = itField,
                                reg_subFields = [f \<mapsto> True]\<rparr>]\<rparr>"

text \<open>
  A constant of the options whose override table has a \<open>StringEquals\<close>, the
  function of handle 7.
\<close>

definition overriddenField :: StringEvaluator where
  "overriddenField =
     \<lparr>String_EvalFnc = Some (\<lambda>ctx. []), String_Field = ''ci'', String_Value = [],
      String_ValueType = ScalarValueType, String_regexp = None,
      String_OpOverrides = Some \<lparr>OpOverrides_StringEquals = Some 7\<rparr>\<rparr>"

definition overrideOpts :: Opts where
  "overrideOpts = \<lparr>LegacyAttributes = None, Constants = [''ci'' \<mapsto> StringEv overriddenField]\<rparr>"

text \<open>
  Sample rules: a primary of each kind at a column, the operand nodes that the grammar
  wraps around a primary, and the comparisons \<open>l op r\<close> and \<open>l op [...]\<close>.
\<close>

definition literal :: "Primary \<Rightarrow> BitOperation" where
  "literal p = BitOperation (Primary_Pos p) (Unary (Primary_Pos p) None None (Some p)) None None"

definition operand :: "Primary \<Rightarrow> Comparison" where
  "operand p = Comparison (Primary_Pos p) (literal p) None None"

definition numberAt :: "int \<Rightarrow> int \<Rightarrow> Primary" where
  "numberAt col n = Primary (at col) None (Some n) None None None None None"

definition durationAt :: "int \<Rightarrow> int \<Rightarrow> Primary" where
  "durationAt col d = Primary (at col) None None (Some d) None None None None"

definition stringAt :: "int \<Rightarrow> string \<Rightarrow> Primary" where
  "stringAt col v = Primary (at col) None None None (Some v) None None None"

definition identAt :: "int \<Rightarrow> string \<Rightarrow> Primary" where
  "identAt col i = Primary (at col) (Some i) None None None None None None"

definition scalarRule :: "Primary \<Rightarrow> string \<Rightarrow> Primary \<Rightarrow> Comparison" where
  "scalarRule l op r =
     Comparison (Primary_Pos l) (literal l)
       (Some (ScalarComparison (Primary_Pos r) op (operand r))) None"

definition arrayRule :: "Primary \<Rightarrow> string \<Rightarrow> Array \<Rightarrow> Comparison" where
  "arrayRule l op a =
     Comparison (Primary_Pos l) (literal l) None (Some (ArrayComparison (Array_Pos a) op a))"

definition stringArrayAt :: "int \<Rightarrow> string list \<Rightarrow> Array" where
  "stringArrayAt col vs =
     \<lparr>Array_Pos = at col, Numbers = [],
      StringMembers =
        map (\<lambda>v. \<lparr>Member_String = Some v, Member_Pattern = None, Member_Regexp = None\<rparr>) vs,
      Array_Ident = None\<rparr>"

section \<open>Properties of the register extraction\<close>

text \<open>
  \<open>FindStringSubmatch\<close> returns the empty slice or the match with its one group, so
  the \<open>default\<close> branch of \<open>switch len(ids)\<close> is never taken.
\<close>

lemma register_FindStringSubmatch_length:
  "length (register_FindStringSubmatch s) = 0 \<or> length (register_FindStringSubmatch s) = 2"
  by (simp add: register_FindStringSubmatch_def Let_def split: list.split)

lemma extractField_no_error: "extractField s \<noteq> Inl e"
  using register_FindStringSubmatch_length [of s]
  by (auto simp add: extractField_def Let_def)

text \<open>
  C4. An identifier with two bracket groups, \<open>a[x].b[y]\<close>: \<open>extractField\<close> does not
  return the wrong-register-format error. It returns the register of the first group and,
  for both fields, the text before the last group.
\<close>

theorem extractField_two_bracket_groups:
  "extractField ''a[x].b[y]'' = Inr (''a[x].b'', ''a[x].b'', ''x'')"
  by code_simp

section \<open>Properties of the identifier resolution\<close>

text \<open>
  The register block for the placeholder register: the generated id \<open>g\<close> is bound to a
  new entry, or its entry is extended, or the entry's iterator field differs.
\<close>

lemma bindRegister_anonymous:
  assumes r: "regID = [] \<or> regID = ''_''"
    and g: "g = RandString ops (randCalls s) 8"
  shows "bindRegister ops pos f itField regID (Some it) s =
    (case registersInfo s g of
       Some info \<Rightarrow>
         if reg_field info \<noteq> itField
         then (Inl (ErrRegisterMultipleFields pos g ''used by multiple fields''),
               s\<lparr>randCalls := Suc (randCalls s)\<rparr>)
         else (Inr g, s\<lparr>randCalls := Suc (randCalls s),
                 registersInfo := (registersInfo s)
                   (g \<mapsto> info\<lparr>reg_subFields := (reg_subFields info)(f \<mapsto> True)\<rparr>)\<rparr>)
     | None \<Rightarrow>
         (Inr g, s\<lparr>randCalls := Suc (randCalls s),
            registersInfo := (registersInfo s)
              (g \<mapsto> \<lparr>reg_iterator = it, reg_field = itField, reg_subFields = [f \<mapsto> True]\<rparr>)\<rparr>))"
proof -
  from r have c: "\<not> (regID \<noteq> [] \<and> regID \<noteq> ''_'')" by blast
  show ?thesis
    unfolding bindRegister_def using r c g
    by (cases "registersInfo s g") simp_all
qed

text \<open>What \<open>identToEvaluator\<close> returns for an identifier that resolves anonymously.\<close>

lemma identToEvaluator_anonymous:
  assumes a: "resolvesAnonymous opts s ident f itField it"
    and g: "g = RandString ops (randCalls s) 8"
  shows "identToEvaluator ops opts pos ident s =
    (case registersInfo s g of
       Some info \<Rightarrow>
         if reg_field info \<noteq> itField
         then ((Inl (ErrRegisterMultipleFields pos g ''used by multiple fields''), pos),
               s\<lparr>randCalls := Suc (randCalls s)\<rparr>)
         else (case GetEvaluator (model s) f g of
                 Inl err \<Rightarrow>
                   ((Inl err, pos),
                    s\<lparr>randCalls := Suc (randCalls s),
                      registersInfo := (registersInfo s)
                        (g \<mapsto> info\<lparr>reg_subFields := (reg_subFields info)(f \<mapsto> True)\<rparr>)\<rparr>)
               | Inr accessor \<Rightarrow>
                   ((Inr accessor, pos),
                    s\<lparr>randCalls := Suc (randCalls s),
                      registersInfo := (registersInfo s)
                        (g \<mapsto> info\<lparr>reg_subFields := (reg_subFields info)(f \<mapsto> True)\<rparr>),
                      referencedFields := insert f (referencedFields s)\<rparr>))
     | None \<Rightarrow>
         (case GetEvaluator (model s) f g of
            Inl err \<Rightarrow>
              ((Inl err, pos),
               s\<lparr>randCalls := Suc (randCalls s),
                 registersInfo := (registersInfo s)
                   (g \<mapsto> \<lparr>reg_iterator = it, reg_field = itField,
                           reg_subFields = [f \<mapsto> True]\<rparr>)\<rparr>)
          | Inr accessor \<Rightarrow>
              ((Inr accessor, pos),
               s\<lparr>randCalls := Suc (randCalls s),
                 registersInfo := (registersInfo s)
                   (g \<mapsto> \<lparr>reg_iterator = it, reg_field = itField,
                           reg_subFields = [f \<mapsto> True]\<rparr>),
                 referencedFields := insert f (referencedFields s)\<rparr>)))"
proof -
  from a have c: "Constants opts ident = None" and m: "macroValue s ident = None"
    and i: "extractIterator (model s) f itField = Inr (Some it)"
    by (simp_all add: resolvesAnonymous_def)
  obtain f0 itField0 regID0 where e: "extractField ident = Inr (f0, itField0, regID0)"
    using extractField_no_error [of ident] by (cases "extractField ident") auto
  from a e have r: "regID0 = [] \<or> regID0 = ''_''"
    and l: "legacyFields opts f0 itField0 = (f, itField)"
    by (simp_all add: resolvesAnonymous_def)
  note b = bindRegister_anonymous [OF r g, of pos f itField it]
  show ?thesis
  proof (cases "registersInfo s g")
    case None
    then show ?thesis
      unfolding identToEvaluator_def
      by (cases "GetEvaluator (model s) f g") (simp_all add: c m e l i b UpdateFields_def)
  next
    case (Some info)
    then show ?thesis
      unfolding identToEvaluator_def
      by (cases "GetEvaluator (model s) f g") (simp_all add: c m e l i b UpdateFields_def)
  qed
qed


text \<open>
  C3. The table of legacy attributes maps \<open>a\<close> to \<open>x\<close>, and the model knows the
  iterator \<open>x\<close> only. For the identifier \<open>a[_].b\<close> the iterator field \<open>a\<close> is a key
  of the table, yet the model is asked for the iterator \<open>a\<close>: the second lookup reads
  the normalized field \<open>a.b\<close>, not the iterator field.
\<close>

theorem legacy_iterator_field_not_remapped:
  "identToEvaluator sampleOperators (sampleOpts (Some [''a'' \<mapsto> ''x''])) (at 0) ''a[_].b''
     (sampleState (sampleModel [''x''] [''a.b''])) =
   ((Inl (ErrExternal ''iterator not found: a''), at 0),
    sampleState (sampleModel [''x''] [''a.b'']))"
proof -
  have e: "extractField ''a[_].b'' = Inr (''a.b'', ''a'', ''_'')" by code_simp
  show ?thesis
    by (simp add: identToEvaluator_def e sampleOpts_def sampleState_def sampleModel_def
        legacyFields_def extractIterator_def macroValue_def)
qed

text \<open>
  The registers, the model and the macros after such a resolution.
\<close>

lemma identToEvaluator_anonymous_state:
  assumes a: "resolvesAnonymous opts s ident f itField it"
    and g: "g = RandString ops (randCalls s) 8"
  shows "registersInfo (snd (identToEvaluator ops opts pos ident s)) =
           (case registersInfo s g of
              Some info \<Rightarrow>
                if reg_field info \<noteq> itField then registersInfo s
                else (registersInfo s)
                       (g \<mapsto> info\<lparr>reg_subFields := (reg_subFields info)(f \<mapsto> True)\<rparr>)
            | None \<Rightarrow>
                (registersInfo s)
                  (g \<mapsto> \<lparr>reg_iterator = it, reg_field = itField, reg_subFields = [f \<mapsto> True]\<rparr>))"
    and "randCalls (snd (identToEvaluator ops opts pos ident s)) = Suc (randCalls s)"
    and "model (snd (identToEvaluator ops opts pos ident s)) = model s"
    and "macros (snd (identToEvaluator ops opts pos ident s)) = macros s"
  by (simp_all add: identToEvaluator_anonymous [OF a g] split: option.split sum.split)

lemma resolvesAnonymous_state:
  assumes "model s' = model s" and "macros s' = macros s"
  shows "resolvesAnonymous opts s' ident f itField it = resolvesAnonymous opts s ident f itField it"
  using assms by (simp add: resolvesAnonymous_def macroValue_def)

text \<open>
  The sample identifiers resolve anonymously, with the bracket or without it.
\<close>

lemma sample_resolves_without_bracket:
  "resolvesAnonymous (sampleOpts None) (sampleState (sampleModel [''a''] fs)) ''a.b'' ''a.b'' [] (Iterator ''a'')"
  "resolvesAnonymous (sampleOpts None) (sampleState (sampleModel [''a''] fs)) ''a.c'' ''a.c'' [] (Iterator ''a'')"
proof -
  have e1: "extractField ''a.b'' = Inr (''a.b'', [], [])" by code_simp
  have e2: "extractField ''a.c'' = Inr (''a.c'', [], [])" by code_simp
  show "resolvesAnonymous (sampleOpts None) (sampleState (sampleModel [''a''] fs)) ''a.b'' ''a.b'' [] (Iterator ''a'')"
    by (simp add: resolvesAnonymous_def e1 sampleOpts_def sampleState_def sampleModel_def
        legacyFields_def extractIterator_def macroValue_def)
  show "resolvesAnonymous (sampleOpts None) (sampleState (sampleModel [''a''] fs)) ''a.c'' ''a.c'' [] (Iterator ''a'')"
    by (simp add: resolvesAnonymous_def e2 sampleOpts_def sampleState_def sampleModel_def
        legacyFields_def extractIterator_def macroValue_def)
qed

lemma sample_resolves_with_bracket:
  assumes "model s = sampleModel [''a''] fs" and "macros s = None"
  shows "resolvesAnonymous (sampleOpts None) s ''a[_].b'' ''a.b'' ''a'' (Iterator ''a'')"
    and "resolvesAnonymous (sampleOpts None) s ''a[_].c'' ''a.c'' ''a'' (Iterator ''a'')"
proof -
  have e1: "extractField ''a[_].b'' = Inr (''a.b'', ''a'', ''_'')" by code_simp
  have e2: "extractField ''a[_].c'' = Inr (''a.c'', ''a'', ''_'')" by code_simp
  show "resolvesAnonymous (sampleOpts None) s ''a[_].b'' ''a.b'' ''a'' (Iterator ''a'')"
    using assms
    by (simp add: resolvesAnonymous_def e1 sampleOpts_def sampleModel_def
        legacyFields_def extractIterator_def macroValue_def)
  show "resolvesAnonymous (sampleOpts None) s ''a[_].c'' ''a.c'' ''a'' (Iterator ''a'')"
    using assms
    by (simp add: resolvesAnonymous_def e2 sampleOpts_def sampleModel_def
        legacyFields_def extractIterator_def macroValue_def)
qed

text \<open>
  C5, as the code has it. Two identifiers that resolve anonymously under the same
  iterator field each bind the id that \<open>RandString\<close> generates at that moment. From a
  state in which neither id is bound, the registers afterwards hold one new entry for each
  generated id, with the one path resolved under it; the two paths share an entry only if
  the generator returns the same id twice.
\<close>

theorem anonymous_registers_one_entry_each:
  assumes a1: "resolvesAnonymous opts s ident1 f1 itField it1"
    and a2: "resolvesAnonymous opts s ident2 f2 itField it2"
    and g1: "g1 = RandString ops (randCalls s) 8"
    and g2: "g2 = RandString ops (Suc (randCalls s)) 8"
    and n1: "registersInfo s g1 = None"
    and n2: "registersInfo s g2 = None"
  shows "registersInfo (snd (identToEvaluator ops opts pos2 ident2
                         (snd (identToEvaluator ops opts pos1 ident1 s)))) =
         (if g1 = g2
          then (registersInfo s)
                 (g1 \<mapsto> \<lparr>reg_iterator = it1, reg_field = itField,
                         reg_subFields = [f1 \<mapsto> True, f2 \<mapsto> True]\<rparr>)
          else (registersInfo s)
                 (g1 \<mapsto> \<lparr>reg_iterator = it1, reg_field = itField, reg_subFields = [f1 \<mapsto> True]\<rparr>,
                  g2 \<mapsto> \<lparr>reg_iterator = it2, reg_field = itField, reg_subFields = [f2 \<mapsto> True]\<rparr>))"
proof -
  let ?s1 = "snd (identToEvaluator ops opts pos1 ident1 s)"
  note st = identToEvaluator_anonymous_state [OF a1 g1, of pos1]
  have r1: "registersInfo ?s1 =
      (registersInfo s)
        (g1 \<mapsto> \<lparr>reg_iterator = it1, reg_field = itField, reg_subFields = [f1 \<mapsto> True]\<rparr>)"
    using st(1) n1 by simp
  have a2': "resolvesAnonymous opts ?s1 ident2 f2 itField it2"
    using a2 resolvesAnonymous_state [OF st(3) st(4)] by simp
  have g2': "g2 = RandString ops (randCalls ?s1) 8"
    using g2 st(2) by simp
  note st2 = identToEvaluator_anonymous_state [OF a2' g2', of pos2]
  show ?thesis
  proof (cases "g1 = g2")
    case True
    then show ?thesis using st2(1) r1 by simp
  next
    case False
    then have "registersInfo ?s1 g2 = None" using r1 n2 by simp
    then show ?thesis using st2(1) r1 False by simp
  qed
qed

text \<open>
  The identifiers \<open>a.b\<close> and \<open>a.c\<close>, without a bracket: two entries, whose iterator
  field is empty.
\<close>

theorem anonymous_registers_one_entry_each_witness:
  "resolvesAnonymous (sampleOpts None) (sampleState (sampleModel [''a''] [''a.b'', ''a.c'']))
     ''a.b'' ''a.b'' [] (Iterator ''a'') \<and>
   resolvesAnonymous (sampleOpts None) (sampleState (sampleModel [''a''] [''a.b'', ''a.c'']))
     ''a.c'' ''a.c'' [] (Iterator ''a'') \<and>
   registersInfo
     (snd (identToEvaluator sampleOperators (sampleOpts None) (at 7) ''a.c''
        (snd (identToEvaluator sampleOperators (sampleOpts None) (at 0) ''a.b''
           (sampleState (sampleModel [''a''] [''a.b'', ''a.c'']))))))
   = [''aaaaaaaa'' \<mapsto> \<lparr>reg_iterator = Iterator ''a'', reg_field = [],
                             reg_subFields = [''a.b'' \<mapsto> True]\<rparr>,
      ''bbbbbbbb'' \<mapsto> \<lparr>reg_iterator = Iterator ''a'', reg_field = [],
                             reg_subFields = [''a.c'' \<mapsto> True]\<rparr>]"
proof -
  let ?s = "sampleState (sampleModel [''a''] [''a.b'', ''a.c''])"
  note a = sample_resolves_without_bracket [of "[''a.b'', ''a.c'']"]
  have g1: "''aaaaaaaa'' = RandString sampleOperators (randCalls ?s) 8"
    by (simp add: sampleOperators_def sampleState_def)
  have g2: "''bbbbbbbb'' = RandString sampleOperators (Suc (randCalls ?s)) 8"
    by (simp add: sampleOperators_def sampleState_def)
  have n1: "registersInfo ?s ''aaaaaaaa'' = None" by (simp add: sampleState_def)
  have n2: "registersInfo ?s ''bbbbbbbb'' = None" by (simp add: sampleState_def)
  have r: "registersInfo ?s = Map.empty" by (simp add: sampleState_def)
  from anonymous_registers_one_entry_each [OF a(1) a(2) g1 g2 n1 n2, of "at 7" "at 0"] a r
  show ?thesis by simp
qed

text \<open>
  C5, as the claim states it, fails on \<open>a[_].b\<close> and \<open>a[_].c\<close>: the two paths share
  the iterator field \<open>a\<close> and the anonymous register, and the registers afterwards hold
  two entries for \<open>a\<close>, each with one of the paths.
\<close>

theorem anonymous_registers_not_shared:
  "registersInfo
     (snd (identToEvaluator sampleOperators (sampleOpts None) (at 9) ''a[_].c''
        (snd (identToEvaluator sampleOperators (sampleOpts None) (at 0) ''a[_].b''
           (sampleState (sampleModel [''a''] [''a.b'', ''a.c'']))))))
   = [''aaaaaaaa'' \<mapsto> \<lparr>reg_iterator = Iterator ''a'', reg_field = ''a'',
                             reg_subFields = [''a.b'' \<mapsto> True]\<rparr>,
      ''bbbbbbbb'' \<mapsto> \<lparr>reg_iterator = Iterator ''a'', reg_field = ''a'',
                             reg_subFields = [''a.c'' \<mapsto> True]\<rparr>]"
proof -
  have e1: "extractField ''a[_].b'' = Inr (''a.b'', ''a'', ''_'')" by code_simp
  have e2: "extractField ''a[_].c'' = Inr (''a.c'', ''a'', ''_'')" by code_simp
  show ?thesis
    by (simp add: identToEvaluator_def e1 e2 sampleOpts_def sampleState_def sampleModel_def
        legacyFields_def extractIterator_def macroValue_def bindRegister_def
        sampleOperators_def UpdateFields_def)
qed

text \<open>
  No step of the compiler changes the iterator field of a bound id: not the register
  block, not \<open>identToEvaluator\<close>, and so, by induction on the node, not
  \<open>nodeToEvaluator\<close>.
\<close>

lemma registersKept_refl: "registersKept s s"
  by (simp add: registersKept_def)

lemma registersKept_trans:
  "registersKept s s1 \<Longrightarrow> registersKept s1 s2 \<Longrightarrow> registersKept s s2"
  unfolding registersKept_def by fastforce

lemma registersKept_same: "registersInfo s' = registersInfo s \<Longrightarrow> registersKept s s'"
  by (simp add: registersKept_def)

lemma bindRegister_registersKept:
  "registersKept s (snd (bindRegister ops pos f itField regID it s))"
proof (cases it)
  case None
  then show ?thesis by (simp add: bindRegister_def registersKept_refl)
next
  case (Some iter)
  show ?thesis
  proof (cases "regID = [] \<or> regID = ''_''")
    case False
    then show ?thesis using Some by (simp add: bindRegister_def registersKept_refl)
  next
    case True
    let ?g = "RandString ops (randCalls s) 8"
    note b = bindRegister_anonymous [OF True refl, of ops pos f itField iter s]
    show ?thesis
    proof (cases "registersInfo s ?g")
      case None
      then show ?thesis using Some b by (simp add: registersKept_def)
    next
      case (Some info)
      then show ?thesis using \<open>it = Some iter\<close> b by (simp add: registersKept_def)
    qed
  qed
qed

lemma identToEvaluator_registersKept:
  "registersKept s (snd (identToEvaluator ops opts pos ident s))"
proof -
  have u: "registersKept s1 (UpdateFields f s1)" for f s1
    by (simp add: registersKept_def UpdateFields_def)
  have k: "registersKept s s1 \<Longrightarrow> registersKept s (UpdateFields f s1)" for f s1
    using u registersKept_trans by blast
  have b: "bindRegister ops pos f itField regID it s = (r, s1) \<Longrightarrow> registersKept s s1"
    for f itField regID it r s1
    using bindRegister_registersKept [of s ops pos f itField regID it] by simp
  show ?thesis
    unfolding identToEvaluator_def
    by (auto simp add: registersKept_refl split: option.split sum.split prod.split
        dest: b intro: k)
qed

lemma arrayToEvaluator_registersKept:
  "registersKept s (snd (arrayToEvaluator ops opts array s))"
  by (simp add: arrayToEvaluator_def registersKept_refl identToEvaluator_registersKept
      split: sum.split option.split)

lemma nodeToEvaluator_registersKept:
  "registersKept s (snd (nodeToEvaluator_BooleanExpression ops opts e1 s))"
  "registersKept s (snd (nodeToEvaluator_Expression ops opts e2 s))"
  "registersKept s (snd (nodeToEvaluator_Comparison ops opts e3 s))"
  "registersKept s (snd (nodeToEvaluator_ScalarComparison ops opts e4 s))"
  "registersKept s (snd (nodeToEvaluator_BitOperation ops opts e5 s))"
  "registersKept s (snd (nodeToEvaluator_Unary ops opts e6 s))"
  "registersKept s (snd (nodeToEvaluator_Primary ops opts e7 s))"
proof (induction ops opts e1 s and ops opts e2 s and ops opts e3 s and ops opts e4 s
    and ops opts e5 s and ops opts e6 s and ops opts e7 s
    rule: nodeToEvaluator_BooleanExpression_nodeToEvaluator_Expression_nodeToEvaluator_Comparison_nodeToEvaluator_ScalarComparison_nodeToEvaluator_BitOperation_nodeToEvaluator_Unary_nodeToEvaluator_Primary.induct)
  case (1 ops opts e s)
  then show ?case by simp
next
  case (2 ops opts objPos c op nxt s)
  obtain r1 p1 s1 where c: "nodeToEvaluator_Comparison ops opts c s = ((r1, p1), s1)"
    by (metis prod.exhaust)
  from "2.IH"(1) c have k1: "registersKept s s1" by simp
  show ?case
  proof (cases r1)
    case (Inl err)
    then show ?thesis using c k1 by simp
  next
    case (Inr cmp)
    show ?thesis
    proof (cases op)
      case None
      then show ?thesis using c k1 Inr by simp
    next
      case (Some opName)
      show ?thesis
      proof (cases "\<exists>cmpBool n. cmp = BoolEv cmpBool \<and> nxt = Some n")
        case False
        then show ?thesis using c k1 Inr Some
          by (cases cmp; cases nxt) simp_all
      next
        case True
        then obtain cmpBool n where b: "cmp = BoolEv cmpBool" and n: "nxt = Some n" by blast
        obtain r2 p2 s2 where d: "nodeToEvaluator_BooleanExpression ops opts n s1 = ((r2, p2), s2)"
          by (metis prod.exhaust)
        from "2.IH"(2) [OF c [symmetric] refl Inr Some b n] d have "registersKept s1 s2" by simp
        with k1 have "registersKept s s2" by (rule registersKept_trans)
        then show ?thesis using c Inr Some b n d
          by (simp split: sum.split Evaluator.split)
      qed
    qed
  qed
next
  case (3 ops opts objPos b sc ac s)
  obtain r1 p1 s1 where c: "nodeToEvaluator_BitOperation ops opts b s = ((r1, p1), s1)"
    by (metis prod.exhaust)
  from "3.IH"(1) c have k1: "registersKept s s1" by simp
  show ?case
  proof (cases r1)
    case (Inl err)
    then show ?thesis using c k1 by simp
  next
    case (Inr unary)
    show ?thesis
    proof (cases ac)
      case (Some a)
      obtain r2 p2 s2 where d: "nodeToEvaluator_ArrayComparison ops opts a s1 = ((r2, p2), s2)"
        by (metis prod.exhaust)
      have "registersKept s1 (snd (nodeToEvaluator_ArrayComparison ops opts a s1))"
        by (simp add: nodeToEvaluator_ArrayComparison_def nodeToEvaluator_Array_def
            arrayToEvaluator_registersKept)
      with d have "registersKept s1 s2" by simp
      with k1 have "registersKept s s2" by (rule registersKept_trans)
      then show ?thesis using c Inr Some d by (simp split: sum.split)
    next
      case None
      show ?thesis
      proof (cases sc)
        case None
        then show ?thesis using c k1 Inr \<open>ac = None\<close> by simp
      next
        case (Some x)
        obtain r2 p2 s2 where d: "nodeToEvaluator_ScalarComparison ops opts x s1 = ((r2, p2), s2)"
          by (metis prod.exhaust)
        from "3.IH"(2) [OF c [symmetric] refl Inr None Some] d have "registersKept s1 s2" by simp
        with k1 have "registersKept s s2" by (rule registersKept_trans)
        then show ?thesis using c Inr None Some d by (simp split: sum.split)
      qed
    qed
  qed
next
  case (4 ops opts objPos op n s)
  then show ?case by simp
next
  case (5 ops opts objPos u op nxt s)
  obtain r1 p1 s1 where c: "nodeToEvaluator_Unary ops opts u s = ((r1, p1), s1)"
    by (metis prod.exhaust)
  from "5.IH"(1) c have k1: "registersKept s s1" by simp
  show ?case
  proof (cases r1)
    case (Inl err)
    then show ?thesis using c k1 by simp
  next
    case (Inr unary)
    show ?thesis
    proof (cases op)
      case None
      then show ?thesis using c k1 Inr by simp
    next
      case (Some opName)
      show ?thesis
      proof (cases "\<exists>bitInt n. unary = IntEv bitInt \<and> nxt = Some n")
        case False
        then show ?thesis using c k1 Inr Some
          by (cases unary; cases nxt) simp_all
      next
        case True
        then obtain bitInt n where b: "unary = IntEv bitInt" and n: "nxt = Some n" by blast
        obtain r2 p2 s2 where d: "nodeToEvaluator_BitOperation ops opts n s1 = ((r2, p2), s2)"
          by (metis prod.exhaust)
        from "5.IH"(2) [OF c [symmetric] refl Inr Some b n] d have "registersKept s1 s2" by simp
        with k1 have "registersKept s s2" by (rule registersKept_trans)
        then show ?thesis using c Inr Some b n d
          by (simp split: sum.split Evaluator.split)
      qed
    qed
  qed
next
  case (6 ops opts objPos op u p s)
  show ?case
  proof (cases op)
    case (Some opName)
    show ?thesis
    proof (cases u)
      case None
      then show ?thesis using Some by (simp add: registersKept_refl)
    next
      case (Some n)
      obtain r1 p1 s1 where c: "nodeToEvaluator_Unary ops opts n s = ((r1, p1), s1)"
        by (metis prod.exhaust)
      from "6.IH"(2) [OF \<open>op = Some opName\<close> Some] c have "registersKept s s1" by simp
      then show ?thesis using \<open>op = Some opName\<close> Some c by (simp split: sum.split)
    qed
  next
    case None
    show ?thesis
    proof (cases p)
      case None
      then show ?thesis using \<open>op = None\<close> by (simp add: registersKept_refl)
    next
      case (Some n)
      from "6.IH"(1) [OF \<open>op = None\<close> Some] show ?thesis using \<open>op = None\<close> Some by simp
    qed
  qed
next
  case (7 ops opts objPos ident number duration str pattern regex sub s)
  show ?case
  proof (cases "\<exists>e. ident = None \<and> number = None \<and> duration = None \<and> str = None \<and>
      pattern = None \<and> regex = None \<and> sub = Some e")
    case True
    then obtain e where "ident = None" "number = None" "duration = None" "str = None"
      "pattern = None" "regex = None" "sub = Some e" by blast
    with "7.IH" show ?thesis by simp
  next
    case False
    then show ?thesis
      by (auto simp add: registersKept_refl identToEvaluator_registersKept split: option.split)
  qed
qed

lemma nodeToEvaluator_keeps_registers:
  "registersKept s (snd (nodeToEvaluator ops opts n s))"
  by (cases n)
    (simp_all add: nodeToEvaluator_registersKept nodeToEvaluator_ArrayComparison_def
      nodeToEvaluator_Array_def arrayToEvaluator_registersKept registersKept_refl)

text \<open>
  C8. An identifier resolves anonymously and the id generated for it is already bound. If
  the entry's iterator field differs, the result is the register-conflict error and only
  the count of generated ids changes: the id is not bound again. If it is the same, the
  entry gets the new field in its subfield set and nothing else changes in the registers.
  And whatever node is compiled from that state, every id bound in it stays bound to its
  iterator field.
\<close>

theorem register_id_keeps_its_iterator_field:
  assumes a: "resolvesAnonymous opts s ident f itField it"
    and g: "g = RandString ops (randCalls s) 8"
    and b: "registersInfo s g = Some info"
  shows "(if reg_field info \<noteq> itField
          then identToEvaluator ops opts pos ident s =
                 ((Inl (ErrRegisterMultipleFields pos g ''used by multiple fields''), pos),
                  s\<lparr>randCalls := Suc (randCalls s)\<rparr>)
          else registersInfo (snd (identToEvaluator ops opts pos ident s)) =
                 (registersInfo s)
                   (g \<mapsto> info\<lparr>reg_subFields := (reg_subFields info)(f \<mapsto> True)\<rparr>)) \<and>
         registersKept s (snd (nodeToEvaluator ops opts n s))"
  using b
  by (simp add: identToEvaluator_anonymous [OF a g] nodeToEvaluator_keeps_registers
      split: sum.split)

text \<open>
  The id \<open>aaaaaaaa\<close> is bound to the iterator field \<open>z\<close> and \<open>a[_].b\<close> draws it:
  the conflict. It is bound to \<open>a\<close> with \<open>a.b\<close> and \<open>a[_].c\<close> draws it: one entry
  with both paths, also when the rule \<open>a[_].c == "x"\<close> is compiled.
\<close>

theorem register_id_keeps_its_iterator_field_witness:
  "identToEvaluator sampleOperators (sampleOpts None) (at 4) ''a[_].b'' (boundState ''z'' ''z.y'') =
     ((Inl (ErrRegisterMultipleFields (at 4) ''aaaaaaaa'' ''used by multiple fields''), at 4),
      (boundState ''z'' ''z.y'')\<lparr>randCalls := 1\<rparr>) \<and>
   registersInfo
     (snd (identToEvaluator sampleOperators (sampleOpts None) (at 4) ''a[_].c''
        (boundState ''a'' ''a.b''))) =
     [''aaaaaaaa'' \<mapsto> \<lparr>reg_iterator = Iterator ''a'', reg_field = ''a'',
                           reg_subFields = [''a.b'' \<mapsto> True, ''a.c'' \<mapsto> True]\<rparr>] \<and>
   registersKept (boundState ''a'' ''a.b'')
     (snd (nodeToEvaluator sampleOperators (sampleOpts None)
        (Node_Comparison (scalarRule (identAt 4 ''a[_].c'') ''=='' (stringAt 14 ''x'')))
        (boundState ''a'' ''a.b'')))"
proof -
  have m: "model (boundState x y) = sampleModel [''a''] [''a.b'', ''a.c'']"
    "macros (boundState x y) = None" for x y
    by (simp_all add: boundState_def sampleState_def)
  have g: "''aaaaaaaa'' = RandString sampleOperators (randCalls (boundState x y)) 8" for x y
    by (simp add: sampleOperators_def boundState_def sampleState_def)
  have b: "registersInfo (boundState x y) ''aaaaaaaa'' =
      Some \<lparr>reg_iterator = Iterator x, reg_field = x, reg_subFields = [y \<mapsto> True]\<rparr>" for x y
    by (simp add: boundState_def)
  have r: "randCalls (boundState x y) = 0"
    "registersInfo (boundState x y) =
      [''aaaaaaaa'' \<mapsto> \<lparr>reg_iterator = Iterator x, reg_field = x, reg_subFields = [y \<mapsto> True]\<rparr>]"
    for x y
    by (simp_all add: boundState_def sampleState_def)
  from register_id_keeps_its_iterator_field
         [OF sample_resolves_with_bracket(1) [OF m] g b, of "''z''" "''z.y''" "at 4"]
       register_id_keeps_its_iterator_field
         [OF sample_resolves_with_bracket(2) [OF m] g b, of "''a''" "''a.b''" "at 4"
            "Node_Comparison (scalarRule (identAt 4 ''a[_].c'') ''=='' (stringAt 14 ''x''))"]
  show ?thesis by (simp add: r)
qed

text \<open>
  C10. An identifier resolves anonymously, its generated id is free or bound to the same
  iterator field, and the model then fails to give the evaluator of the field. The result
  is the model's error, and the state that comes back holds the binding of the id, with
  the field in its subfield set; the field is not added to the referenced fields.
\<close>

theorem register_binding_survives_failed_lookup:
  assumes a: "resolvesAnonymous opts s ident f itField it"
    and g: "g = RandString ops (randCalls s) 8"
    and b: "registersInfo s g = None \<or>
            (\<exists>info. registersInfo s g = Some info \<and> reg_field info = itField)"
    and e: "GetEvaluator (model s) f g = Inl err"
  shows "\<exists>s' info. identToEvaluator ops opts pos ident s = ((Inl err, pos), s') \<and>
           registersInfo s' g = Some info \<and> reg_field info = itField \<and>
           reg_subFields info f = Some True \<and>
           referencedFields s' = referencedFields s"
  using b
proof
  assume "registersInfo s g = None"
  then show ?thesis by (simp add: identToEvaluator_anonymous [OF a g] e)
next
  assume "\<exists>info. registersInfo s g = Some info \<and> reg_field info = itField"
  then obtain info where "registersInfo s g = Some info" and "reg_field info = itField"
    by blast
  then show ?thesis by (simp add: identToEvaluator_anonymous [OF a g] e)
qed

text \<open>
  The model knows the iterator \<open>a\<close> and no field: \<open>a[_].b\<close> fails, and the id
  \<open>aaaaaaaa\<close>, free before, is bound afterwards.
\<close>

theorem register_binding_survives_failed_lookup_witness:
  "registersInfo (sampleState (sampleModel [''a''] [])) ''aaaaaaaa'' = None \<and>
   GetEvaluator (sampleModel [''a''] []) ''a.b'' ''aaaaaaaa'' =
     Inl (ErrExternal ''field not found: a.b'') \<and>
   (\<exists>s' info.
      identToEvaluator sampleOperators (sampleOpts None) (at 0) ''a[_].b''
        (sampleState (sampleModel [''a''] [])) =
        ((Inl (ErrExternal ''field not found: a.b''), at 0), s') \<and>
      registersInfo s' ''aaaaaaaa'' = Some info \<and> reg_field info = ''a'' \<and>
      reg_subFields info ''a.b'' = Some True \<and> referencedFields s' = {})"
proof -
  let ?s = "sampleState (sampleModel [''a''] [])"
  have m: "model ?s = sampleModel [''a''] []" "macros ?s = None"
    by (simp_all add: sampleState_def)
  have g: "''aaaaaaaa'' = RandString sampleOperators (randCalls ?s) 8"
    by (simp add: sampleOperators_def sampleState_def)
  have n: "registersInfo ?s ''aaaaaaaa'' = None" by (simp add: sampleState_def)
  have e: "GetEvaluator (model ?s) ''a.b'' ''aaaaaaaa'' = Inl (ErrExternal ''field not found: a.b'')"
    by (simp add: sampleState_def sampleModel_def)
  have f: "referencedFields ?s = {}" by (simp add: sampleState_def)
  from register_binding_survives_failed_lookup
         [OF sample_resolves_with_bracket(1) [OF m] g disjI1 [OF n] e, of "at 0"] n e m f
  show ?thesis by simp
qed

section \<open>Properties of the comparisons\<close>

text \<open>
  A scalar comparison whose two operands compile: the result is the dispatch on the two
  compiled values, in the state after the right operand.
\<close>

lemma nodeToEvaluator_Comparison_scalar:
  assumes "nodeToEvaluator_BitOperation ops opts b s = ((Inr unary, pos1), s1)"
    and "nodeToEvaluator_Comparison ops opts n s1 = ((Inr next, pos2), s2)"
  shows "nodeToEvaluator_Comparison ops opts
           (Comparison objPos b (Some (ScalarComparison p op n)) None) s =
         (compareScalar ops opts s2 objPos pos2 op unary next, s2)"
  using assms by simp

text \<open>
  The sample operands and rules compile to their literals and fields.
\<close>

lemma literal_value:
  "nodeToEvaluator_BitOperation ops opts (literal (numberAt c n)) s =
     ((Inr (IntEv (intLiteral n False)), at c), s)"
  "nodeToEvaluator_BitOperation ops opts (literal (durationAt c n)) s =
     ((Inr (IntEv (intLiteral n True)), at c), s)"
  "nodeToEvaluator_BitOperation ops opts (literal (stringAt c v)) s =
     ((Inr (StringEv (stringLiteral v ScalarValueType)), at c), s)"
  "nodeToEvaluator_BitOperation ops opts (literal (identAt c i)) s =
     (case identToEvaluator ops opts (at c) i s of
        ((Inl err, pos), s1) \<Rightarrow> ((Inl err, pos), s1)
      | ((Inr v, pos), s1) \<Rightarrow> ((Inr v, at c), s1))"
  by (simp_all add: literal_def numberAt_def durationAt_def stringAt_def identAt_def
      split: prod.split sum.split)

lemma operand_value:
  "nodeToEvaluator_Comparison ops opts (operand p) s =
     (case nodeToEvaluator_BitOperation ops opts (literal p) s of
        ((Inl err, pos), s1) \<Rightarrow> ((Inl err, pos), s1)
      | ((Inr v, pos), s1) \<Rightarrow> ((Inr v, pos), s1))"
  by (simp add: operand_def split: prod.split sum.split)

lemma scalarRule_value:
  assumes "nodeToEvaluator_BitOperation ops opts (literal l) s = ((Inr u, p1), s1)"
    and "nodeToEvaluator_BitOperation ops opts (literal r) s1 = ((Inr v, p2), s2)"
  shows "nodeToEvaluator_Comparison ops opts (scalarRule l op r) s =
           (compareScalar ops opts s2 (Primary_Pos l) p2 op u v, s2)"
  using assms by (simp add: scalarRule_def operand_def)

lemma sample_field_value:
  assumes "model s = sampleModel [] [''f'', ''g'']" and "macros s = None"
  shows "nodeToEvaluator_BitOperation sampleOperators (sampleOpts None) (literal (identAt c ''f'')) s =
           ((Inr (StringEv (sampleField ''f'')), at c), UpdateFields ''f'' s)"
    and "nodeToEvaluator_BitOperation sampleOperators (sampleOpts None) (literal (identAt c ''g'')) s =
           ((Inr (StringEv (sampleField ''g'')), at c), UpdateFields ''g'' s)"
proof -
  have e: "extractField ''f'' = Inr (''f'', [], [])" "extractField ''g'' = Inr (''g'', [], [])"
    by code_simp+
  show "nodeToEvaluator_BitOperation sampleOperators (sampleOpts None) (literal (identAt c ''f'')) s =
           ((Inr (StringEv (sampleField ''f'')), at c), UpdateFields ''f'' s)"
    using assms
    by (simp add: literal_value identToEvaluator_def e sampleOpts_def sampleModel_def
        legacyFields_def extractIterator_def macroValue_def bindRegister_def)
  show "nodeToEvaluator_BitOperation sampleOperators (sampleOpts None) (literal (identAt c ''g'')) s =
           ((Inr (StringEv (sampleField ''g'')), at c), UpdateFields ''g'' s)"
    using assms
    by (simp add: literal_value identToEvaluator_def e sampleOpts_def sampleModel_def
        legacyFields_def extractIterator_def macroValue_def bindRegister_def)
qed

text \<open>
  C1, as the code has it. Between two integer evaluators the ordering operators dispatch on
  the duration flag of the right operand: to the duration comparison when it carries the
  flag, to the plain comparison when it does not. The flag of the left operand is not read.
\<close>

theorem ordering_dispatch_by_right_operand:
  assumes l: "nodeToEvaluator_BitOperation ops opts b s = ((Inr (IntEv u), pos1), s1)"
    and r: "nodeToEvaluator_Comparison ops opts n s1 = ((Inr (IntEv nextInt), pos2), s2)"
  shows "nodeToEvaluator_Comparison ops opts
           (Comparison objPos b (Some (ScalarComparison p ''<'' n)) None) s =
         (asIs ((if isDuration nextInt then DurationLesserThan ops else LesserThan ops)
                  u nextInt opts s2) objPos objPos, s2) \<and>
         nodeToEvaluator_Comparison ops opts
           (Comparison objPos b (Some (ScalarComparison p ''<='' n)) None) s =
         (asIs ((if isDuration nextInt then DurationLesserOrEqualThan ops
                 else LesserOrEqualThan ops) u nextInt opts s2) objPos objPos, s2) \<and>
         nodeToEvaluator_Comparison ops opts
           (Comparison objPos b (Some (ScalarComparison p ''>'' n)) None) s =
         (asIs ((if isDuration nextInt then DurationGreaterThan ops else GreaterThan ops)
                  u nextInt opts s2) objPos objPos, s2) \<and>
         nodeToEvaluator_Comparison ops opts
           (Comparison objPos b (Some (ScalarComparison p ''>='' n)) None) s =
         (asIs ((if isDuration nextInt then DurationGreaterOrEqualThan ops
                 else GreaterOrEqualThan ops) u nextInt opts s2) objPos objPos, s2)"
  by (simp add: nodeToEvaluator_Comparison_scalar [OF l r] compareScalar_def
      del: nodeToEvaluator_Comparison.simps)

text \<open>
  The rule \<open>5 < 10s\<close>: the duration comparison, for a left operand without the flag.
\<close>

theorem ordering_dispatch_by_right_operand_witness:
  "nodeToEvaluator_Comparison sampleOperators (sampleOpts None)
     (scalarRule (numberAt 0 5) ''<'' (durationAt 4 10)) (sampleState (sampleModel [] [])) =
   ((Inr (BoolEv \<lparr>Bool_EvalFnc = None, Bool_Value = True, Bool_Weight = 20\<rparr>), at 0),
    sampleState (sampleModel [] []))"
proof -
  let ?s = "sampleState (sampleModel [] [])"
  have l: "nodeToEvaluator_BitOperation sampleOperators (sampleOpts None)
             (literal (numberAt 0 5)) ?s = ((Inr (IntEv (intLiteral 5 False)), at 0), ?s)"
    by (simp add: literal_value)
  have r: "nodeToEvaluator_Comparison sampleOperators (sampleOpts None)
             (operand (durationAt 4 10)) ?s = ((Inr (IntEv (intLiteral 10 True)), at 4), ?s)"
    by (simp add: operand_value literal_value)
  have p: "Primary_Pos (numberAt 0 5) = at 0" by (simp add: numberAt_def)
  from ordering_dispatch_by_right_operand [OF l r, of "at 0" "Primary_Pos (durationAt 4 10)"]
  show ?thesis
    by (simp add: scalarRule_def p asIs_def intLiteral_def sampleOperators_def sampleBool_def)
qed

text \<open>
  C1, as the claim states it, fails on \<open>5s < 10\<close>: the left operand carries the duration
  flag and the comparison is the plain \<open>LesserThan\<close>, not \<open>DurationLesserThan\<close>.
\<close>

theorem ordering_ignores_left_duration_flag:
  "nodeToEvaluator_Comparison sampleOperators (sampleOpts None)
     (scalarRule (durationAt 0 5) ''<'' (numberAt 5 10)) (sampleState (sampleModel [] [])) =
   (asIs (LesserThan sampleOperators (intLiteral 5 True) (intLiteral 10 False)
            (sampleOpts None) (sampleState (sampleModel [] []))) (at 0) (at 0),
    sampleState (sampleModel [] [])) \<and>
   nodeToEvaluator_Comparison sampleOperators (sampleOpts None)
     (scalarRule (durationAt 0 5) ''<'' (numberAt 5 10)) (sampleState (sampleModel [] [])) \<noteq>
   (asIs (DurationLesserThan sampleOperators (intLiteral 5 True) (intLiteral 10 False)
            (sampleOpts None) (sampleState (sampleModel [] []))) (at 0) (at 0),
    sampleState (sampleModel [] []))"
proof -
  let ?s = "sampleState (sampleModel [] [])"
  have step: "nodeToEvaluator_Comparison sampleOperators (sampleOpts None)
      (scalarRule (durationAt 0 5) ''<'' (numberAt 5 10)) ?s =
      (compareScalar sampleOperators (sampleOpts None) ?s (Primary_Pos (durationAt 0 5)) (at 5)
         ''<'' (IntEv (intLiteral 5 True)) (IntEv (intLiteral 10 False)), ?s)"
    by (rule scalarRule_value) (rule literal_value)+
  show ?thesis
    unfolding step
    by (simp add: durationAt_def compareScalar_def intLiteral_def asIs_def sampleOperators_def
        sampleBool_def)
qed

text \<open>
  C2, as the code has it. Between two integer evaluators whose right operand does not
  carry the duration flag, \<open>==\<close> compiles to the evaluator that \<open>IntEquals\<close> returns and
  \<open>!=\<close> to that evaluator under \<open>Not\<close>, whatever the flag of the left operand.
\<close>

theorem equality_without_right_duration_flag:
  assumes l: "nodeToEvaluator_BitOperation ops opts b s = ((Inr (IntEv u), pos1), s1)"
    and r: "nodeToEvaluator_Comparison ops opts n s1 = ((Inr (IntEv nextInt), pos2), s2)"
    and d: "\<not> isDuration nextInt"
    and e: "IntEquals ops u nextInt opts s2 = Inr eq"
  shows "nodeToEvaluator_Comparison ops opts
           (Comparison objPos b (Some (ScalarComparison p ''=='' n)) None) s =
         ((Inr (BoolEv eq), objPos), s2) \<and>
         nodeToEvaluator_Comparison ops opts
           (Comparison objPos b (Some (ScalarComparison p ''!='' n)) None) s =
         ((Inr (BoolEv (Not_ev eq opts s2)), objPos), s2)"
  using d e
  by (simp add: nodeToEvaluator_Comparison_scalar [OF l r] compareScalar_def asIs_def
      negated_def del: nodeToEvaluator_Comparison.simps)

text \<open>
  The rule \<open>5s != 5\<close>: the left operand carries the flag, the right one does not.
\<close>

theorem equality_without_right_duration_flag_witness:
  "nodeToEvaluator_Comparison sampleOperators (sampleOpts None)
     (scalarRule (durationAt 0 5) ''!='' (numberAt 6 5)) (sampleState (sampleModel [] [])) =
   ((Inr (BoolEv \<lparr>Bool_EvalFnc = None, Bool_Value = False, Bool_Weight = 9\<rparr>), at 0),
    sampleState (sampleModel [] []))"
proof -
  let ?s = "sampleState (sampleModel [] [])"
  have l: "nodeToEvaluator_BitOperation sampleOperators (sampleOpts None)
             (literal (durationAt 0 5)) ?s = ((Inr (IntEv (intLiteral 5 True)), at 0), ?s)"
    by (simp add: literal_value)
  have r: "nodeToEvaluator_Comparison sampleOperators (sampleOpts None)
             (operand (numberAt 6 5)) ?s = ((Inr (IntEv (intLiteral 5 False)), at 6), ?s)"
    by (simp add: operand_value literal_value)
  have d: "\<not> isDuration (intLiteral 5 False)" by (simp add: intLiteral_def)
  have e: "IntEquals sampleOperators (intLiteral 5 True) (intLiteral 5 False) (sampleOpts None) ?s =
             Inr \<lparr>Bool_EvalFnc = None, Bool_Value = True, Bool_Weight = 9\<rparr>"
    by (simp add: sampleOperators_def sampleBool_def intLiteral_def)
  have p: "Primary_Pos (durationAt 0 5) = at 0" by (simp add: durationAt_def)
  from equality_without_right_duration_flag
         [OF l r d e, of "at 0" "Primary_Pos (numberAt 6 5)"]
  show ?thesis by (simp add: scalarRule_def p Not_ev_def)
qed

text \<open>
  C2, as the claim states it, fails on \<open>5 == 10s\<close> and \<open>5 != 10s\<close>: the right operand
  carries the duration flag and the comparison does not compile.
\<close>

theorem equality_rejects_right_duration_flag:
  "nodeToEvaluator_Comparison sampleOperators (sampleOpts None)
     (scalarRule (numberAt 0 5) ''=='' (durationAt 5 10)) (sampleState (sampleModel [] [])) =
   ((Inl (ErrTypeError (at 5) reflect_Int), at 5), sampleState (sampleModel [] [])) \<and>
   nodeToEvaluator_Comparison sampleOperators (sampleOpts None)
     (scalarRule (numberAt 0 5) ''!='' (durationAt 5 10)) (sampleState (sampleModel [] [])) =
   ((Inl (ErrTypeError (at 5) reflect_Int), at 5), sampleState (sampleModel [] []))"
proof -
  let ?s = "sampleState (sampleModel [] [])"
  have step: "nodeToEvaluator_Comparison sampleOperators (sampleOpts None)
      (scalarRule (numberAt 0 5) op (durationAt 5 10)) ?s =
      (compareScalar sampleOperators (sampleOpts None) ?s (Primary_Pos (numberAt 0 5)) (at 5)
         op (IntEv (intLiteral 5 False)) (IntEv (intLiteral 10 True)), ?s)" for op
    by (rule scalarRule_value) (rule literal_value)+
  show ?thesis
    unfolding step
    by (simp add: compareScalar_def intLiteral_def)
qed

text \<open>
  C6. Between two string evaluators, \<open>==\<close> calls the \<open>StringEquals\<close> of the left
  operand's override table when the table and the function are there, else that of the
  right operand's table, else the default \<open>StringEquals\<close>, and compiles to the
  evaluator that the call returns. \<open>!=\<close> calls the default \<open>StringEquals\<close>, whatever
  the tables hold, and compiles to \<open>Not\<close> of the evaluator it returns. An error of the
  call is returned at the position of the comparison.
\<close>

theorem string_equality_overrides:
  assumes l: "nodeToEvaluator_BitOperation ops opts b s = ((Inr (StringEv u), pos1), s1)"
    and r: "nodeToEvaluator_Comparison ops opts n s1 = ((Inr (StringEv nextString), pos2), s2)"
  shows "nodeToEvaluator_Comparison ops opts
           (Comparison objPos b (Some (ScalarComparison p ''=='' n)) None) s =
         (case (if String_OpOverrides u \<noteq> None \<and>
                   OpOverrides_StringEquals (the (String_OpOverrides u)) \<noteq> None
                then StringEquals_override ops
                       (the (OpOverrides_StringEquals (the (String_OpOverrides u))))
                       u nextString opts s2
                else if String_OpOverrides nextString \<noteq> None \<and>
                        OpOverrides_StringEquals (the (String_OpOverrides nextString)) \<noteq> None
                then StringEquals_override ops
                       (the (OpOverrides_StringEquals (the (String_OpOverrides nextString))))
                       u nextString opts s2
                else StringEquals ops u nextString opts s2) of
            Inl err \<Rightarrow> ((Inl err, objPos), s2)
          | Inr eq \<Rightarrow> ((Inr (BoolEv eq), objPos), s2)) \<and>
         nodeToEvaluator_Comparison ops opts
           (Comparison objPos b (Some (ScalarComparison p ''!='' n)) None) s =
         (case StringEquals ops u nextString opts s2 of
            Inl err \<Rightarrow> ((Inl err, objPos), s2)
          | Inr eq \<Rightarrow> ((Inr (BoolEv (Not_ev eq opts s2)), objPos), s2))"
proof -
  have o: "stringEqualsWithOverrides ops opts s2 u nextString =
      (if String_OpOverrides u \<noteq> None \<and>
          OpOverrides_StringEquals (the (String_OpOverrides u)) \<noteq> None
       then StringEquals_override ops
              (the (OpOverrides_StringEquals (the (String_OpOverrides u)))) u nextString opts s2
       else if String_OpOverrides nextString \<noteq> None \<and>
               OpOverrides_StringEquals (the (String_OpOverrides nextString)) \<noteq> None
       then StringEquals_override ops
              (the (OpOverrides_StringEquals (the (String_OpOverrides nextString))))
              u nextString opts s2
       else StringEquals ops u nextString opts s2)"
    by (auto simp add: stringEqualsWithOverrides_def split: option.split)
  have e: "compareScalar ops opts s2 objPos pos2 ''=='' (StringEv u) (StringEv nextString) =
      (case stringEqualsWithOverrides ops opts s2 u nextString of
         Inl err \<Rightarrow> (Inl err, objPos)
       | Inr eq \<Rightarrow> (Inr (BoolEv eq), objPos))"
    by (simp add: compareScalar_def asIs_def)
  have d: "compareScalar ops opts s2 objPos pos2 ''!='' (StringEv u) (StringEv nextString) =
      (case StringEquals ops u nextString opts s2 of
         Inl err \<Rightarrow> (Inl err, objPos)
       | Inr eq \<Rightarrow> (Inr (BoolEv (Not_ev eq opts s2)), objPos))"
    by (simp add: compareScalar_def negated_def)
  have eq: "nodeToEvaluator_Comparison ops opts
              (Comparison objPos b (Some (ScalarComparison p ''=='' n)) None) s =
            (compareScalar ops opts s2 objPos pos2 ''=='' (StringEv u) (StringEv nextString), s2)"
    by (rule nodeToEvaluator_Comparison_scalar [OF l r])
  have ne: "nodeToEvaluator_Comparison ops opts
              (Comparison objPos b (Some (ScalarComparison p ''!='' n)) None) s =
            (compareScalar ops opts s2 objPos pos2 ''!='' (StringEv u) (StringEv nextString), s2)"
    by (rule nodeToEvaluator_Comparison_scalar [OF l r])
  show ?thesis
    unfolding eq ne e d o by (simp split: sum.split)
qed

text \<open>
  The rules \<open>ci == "a"\<close> and \<open>ci != "a"\<close> for the constant \<open>ci\<close> with an override:
  the override's evaluator (weight 107) and the default's (weight 6) under \<open>Not\<close>.
\<close>

theorem string_equality_overrides_witness:
  "nodeToEvaluator_Comparison sampleOperators overrideOpts
     (scalarRule (identAt 0 ''ci'') ''=='' (stringAt 6 ''a'')) (sampleState (sampleModel [] [])) =
   ((Inr (BoolEv \<lparr>Bool_EvalFnc = None, Bool_Value = True, Bool_Weight = 107\<rparr>), at 0),
    sampleState (sampleModel [] [])) \<and>
   nodeToEvaluator_Comparison sampleOperators overrideOpts
     (scalarRule (identAt 0 ''ci'') ''!='' (stringAt 6 ''a'')) (sampleState (sampleModel [] [])) =
   ((Inr (BoolEv \<lparr>Bool_EvalFnc = None, Bool_Value = True, Bool_Weight = 6\<rparr>), at 0),
    sampleState (sampleModel [] []))"
proof -
  let ?s = "sampleState (sampleModel [] [])"
  have l: "nodeToEvaluator_BitOperation sampleOperators overrideOpts
             (literal (identAt 0 ''ci'')) ?s = ((Inr (StringEv overriddenField), at 0), ?s)"
    by (simp add: literal_value identToEvaluator_def overrideOpts_def)
  have r: "nodeToEvaluator_Comparison sampleOperators overrideOpts
             (operand (stringAt 6 ''a'')) ?s =
           ((Inr (StringEv (stringLiteral ''a'' ScalarValueType)), at 6), ?s)"
    by (simp add: operand_value literal_value)
  have p: "Primary_Pos (identAt 0 ''ci'') = at 0" by (simp add: identAt_def)
  from string_equality_overrides [OF l r, of "at 0" "Primary_Pos (stringAt 6 ''a'')"]
  show ?thesis
    by (simp add: scalarRule_def p overriddenField_def stringLiteral_def Not_ev_def
        sampleOperators_def sampleBool_def)
qed

text \<open>
  C7. The operator is \<open>=~\<close> or \<open>!~\<close>, the left operand a string or a string array
  evaluator, the right one a string evaluator. If the right operand has a deferred
  function, the result is the non-static-pattern error for its field. Otherwise its
  pattern is compiled here: a failure is an error at the position of the comparison. On
  success the matcher is called on the compiled operand (\<open>StringEquals\<close> for a string,
  \<open>ArrayStringContains\<close> for an array): the comparison compiles to the evaluator that
  the call returns for \<open>=~\<close> and to \<open>Not\<close> of it for \<open>!~\<close>, and an error of the
  call is returned at the position of the comparison.
\<close>

theorem pattern_operand_must_be_static:
  assumes l: "nodeToEvaluator_BitOperation ops opts b s = ((Inr left, pos1), s1)"
    and k: "left = StringEv u \<or> left = StringArrayEv ua"
    and r: "nodeToEvaluator_Comparison ops opts n s1 = ((Inr (StringEv nextString), pos2), s2)"
    and o: "op = ''=~'' \<or> op = ''!~''"
  shows "nodeToEvaluator_Comparison ops opts
           (Comparison objPos b (Some (ScalarComparison p op n)) None) s =
         ((if String_EvalFnc nextString \<noteq> None
           then (Inl (ErrNonStaticPattern (String_Field nextString)), objPos)
           else (case compilePattern ops nextString of
                   Inl msg \<Rightarrow> (Inl (ErrAstToEval objPos msg), objPos)
                 | Inr compiled \<Rightarrow>
                     (case (if left = StringEv u
                            then StringEquals ops u compiled opts s2
                            else ArrayStringContains ops compiled ua opts s2) of
                        Inl err \<Rightarrow> (Inl err, objPos)
                      | Inr matcher \<Rightarrow>
                          (Inr (BoolEv (if op = ''=~'' then matcher
                                        else Not_ev matcher opts s2)), objPos)))), s2)"
proof -
  note c = nodeToEvaluator_Comparison_scalar [OF l r, of objPos p op]
  from k show ?thesis
  proof
    assume "left = StringEv u"
    with o show ?thesis
      unfolding c
      by (auto simp add: compareScalar_def staticPattern_def asIs_def negated_def
          split: sum.split)
  next
    assume "left = StringArrayEv ua"
    with o show ?thesis
      unfolding c
      by (auto simp add: compareScalar_def staticPattern_def asIs_def negated_def
          split: sum.split)
  qed
qed

text \<open>
  The rules \<open>f =~ "abc*"\<close>, which compiles to the matcher, \<open>f !~ "abc*"\<close>, which
  compiles to the matcher under \<open>Not\<close>, and \<open>f =~ g\<close> for the field \<open>g\<close>, which
  fails.
\<close>

theorem pattern_operand_must_be_static_witness:
  "nodeToEvaluator_Comparison sampleOperators (sampleOpts None)
     (scalarRule (identAt 0 ''f'') ''=~'' (stringAt 5 ''abc*''))
     (sampleState (sampleModel [] [''f'', ''g''])) =
   ((Inr (BoolEv \<lparr>Bool_EvalFnc = None, Bool_Value = False, Bool_Weight = 6\<rparr>), at 0),
    UpdateFields ''f'' (sampleState (sampleModel [] [''f'', ''g'']))) \<and>
   nodeToEvaluator_Comparison sampleOperators (sampleOpts None)
     (scalarRule (identAt 0 ''f'') ''!~'' (stringAt 5 ''abc*''))
     (sampleState (sampleModel [] [''f'', ''g''])) =
   ((Inr (BoolEv \<lparr>Bool_EvalFnc = None, Bool_Value = True, Bool_Weight = 6\<rparr>), at 0),
    UpdateFields ''f'' (sampleState (sampleModel [] [''f'', ''g'']))) \<and>
   nodeToEvaluator_Comparison sampleOperators (sampleOpts None)
     (scalarRule (identAt 0 ''f'') ''=~'' (identAt 5 ''g''))
     (sampleState (sampleModel [] [''f'', ''g''])) =
   ((Inl (ErrNonStaticPattern ''g''), at 0),
    UpdateFields ''g'' (UpdateFields ''f'' (sampleState (sampleModel [] [''f'', ''g'']))))"
proof -
  let ?s = "sampleState (sampleModel [] [''f'', ''g''])"
  let ?s1 = "UpdateFields ''f'' ?s"
  have m: "model ?s = sampleModel [] [''f'', ''g'']" "macros ?s = None"
    "model ?s1 = sampleModel [] [''f'', ''g'']" "macros ?s1 = None"
    by (simp_all add: sampleState_def UpdateFields_def)
  note l = sample_field_value(1) [OF m(1) m(2), of 0]
  have r1: "nodeToEvaluator_Comparison sampleOperators (sampleOpts None)
              (operand (stringAt 5 ''abc*'')) ?s1 =
            ((Inr (StringEv (stringLiteral ''abc*'' ScalarValueType)), at 5), ?s1)"
    by (simp add: operand_value literal_value)
  have r2: "nodeToEvaluator_Comparison sampleOperators (sampleOpts None)
              (operand (identAt 5 ''g'')) ?s1 =
            ((Inr (StringEv (sampleField ''g'')), at 5), UpdateFields ''g'' ?s1)"
    by (simp add: operand_value sample_field_value(2) [OF m(3) m(4)])
  have p: "Primary_Pos (identAt 0 ''f'') = at 0" by (simp add: identAt_def)
  have c: "compilePattern sampleOperators (stringLiteral ''abc*'' ScalarValueType) =
             Inr ((stringLiteral ''abc*'' ScalarValueType)\<lparr>String_regexp := Some ''abc*''\<rparr>)"
    by (simp add: sampleOperators_def sampleCompile_def stringLiteral_def)
  have q: "StringEquals sampleOperators (sampleField ''f'')
             ((stringLiteral ''abc*'' ScalarValueType)\<lparr>String_regexp := Some ''abc*''\<rparr>)
             (sampleOpts None) ?s1 =
           Inr \<lparr>Bool_EvalFnc = None, Bool_Value = False, Bool_Weight = 6\<rparr>"
    by (simp add: sampleOperators_def sampleBool_def sampleField_def stringLiteral_def)
  have n1: "String_EvalFnc (stringLiteral ''abc*'' ScalarValueType) = None"
    by (simp add: stringLiteral_def)
  have n2: "String_EvalFnc (sampleField ''g'') \<noteq> None" "String_Field (sampleField ''g'') = ''g''"
    by (simp_all add: sampleField_def)
  from pattern_operand_must_be_static
         [OF l disjI1 [OF refl] r1 disjI1 [OF refl], of "at 0" "Primary_Pos (stringAt 5 ''abc*'')"]
       pattern_operand_must_be_static
         [OF l disjI1 [OF refl] r1 disjI2 [OF refl], of "at 0" "Primary_Pos (stringAt 5 ''abc*'')"]
       pattern_operand_must_be_static
         [OF l disjI1 [OF refl] r2 disjI1 [OF refl], of "at 0" "Primary_Pos (identAt 5 ''g'')"]
  show ?thesis
    by (simp add: scalarRule_def p c q n1 n2 Not_ev_def)
qed

text \<open>
  The membership block under \<open>notin\<close> and under \<open>in\<close>, and the negation's value.
\<close>

lemma compareArray_notin:
  assumes "compareArray ops opts st objPos pos ''notin'' unary next = (Inr v, q)"
  shows "\<exists>e. compareArray ops opts st objPos pos ''in'' unary next = (Inr (BoolEv e), q) \<and>
             v = BoolEv (Not_ev e opts st)"
  using assms
  by (auto simp add: compareArray_def membership_def split: Evaluator.splits sum.splits)

lemma Bool_Eval_Not_ev: "Bool_Eval (Not_ev e opts st) ctx = (\<not> Bool_Eval e ctx)"
  by (simp add: Bool_Eval_def Not_ev_def split: option.split)

text \<open>
  C9. An array comparison with \<open>notin\<close> that compiles: the same comparison with \<open>in\<close>
  compiles too, at the same position and to the same state, the \<open>notin\<close> evaluator is
  \<open>Not\<close> of the \<open>in\<close> evaluator, and for every context the two yield opposite
  booleans.
\<close>

theorem notin_negates_in:
  assumes n: "nodeToEvaluator_Comparison ops opts
                (Comparison objPos b sc (Some (ArrayComparison p ''notin'' array))) s =
              ((Inr v, pos), s')"
  shows "\<exists>e. nodeToEvaluator_Comparison ops opts
                (Comparison objPos b sc (Some (ArrayComparison p ''in'' array))) s =
              ((Inr (BoolEv e), pos), s') \<and>
             v = BoolEv (Not_ev e opts s') \<and>
             (\<forall>ctx. Bool_Eval (Not_ev e opts s') ctx = (\<not> Bool_Eval e ctx))"
proof -
  obtain r1 p1 s1 where b1: "nodeToEvaluator_BitOperation ops opts b s = ((r1, p1), s1)"
    by (metis prod.exhaust)
  obtain r2 p2 s2 where b2: "nodeToEvaluator_Array ops opts array s1 = ((r2, p2), s2)"
    by (metis prod.exhaust)
  from n b1 obtain unary where u: "r1 = Inr unary"
    by (cases r1) simp_all
  from n b1 b2 u obtain nxt where x: "r2 = Inr nxt"
    by (cases r2) (simp_all add: nodeToEvaluator_ArrayComparison_def)
  from n b1 b2 u x
  have c: "compareArray ops opts s2 objPos p2 ''notin'' unary nxt = (Inr v, pos)" and s: "s' = s2"
    by (auto simp add: nodeToEvaluator_ArrayComparison_def)
  from compareArray_notin [OF c] obtain e
    where e: "compareArray ops opts s2 objPos p2 ''in'' unary nxt = (Inr (BoolEv e), pos)"
      and v: "v = BoolEv (Not_ev e opts s2)"
    by blast
  have "nodeToEvaluator_Comparison ops opts
          (Comparison objPos b sc (Some (ArrayComparison p ''in'' array))) s =
        ((Inr (BoolEv e), pos), s')"
    using b1 b2 u x e s by (simp add: nodeToEvaluator_ArrayComparison_def)
  with v s show ?thesis by (simp add: Bool_Eval_Not_ev)
qed

text \<open>
  The rule \<open>"a" notin ["a", "b"]\<close>.
\<close>

theorem notin_negates_in_witness:
  "nodeToEvaluator_Comparison sampleOperators (sampleOpts None)
     (arrayRule (stringAt 0 ''a'') ''notin'' (stringArrayAt 10 [''a'', ''b'']))
     (sampleState (sampleModel [] [])) =
   ((Inr (BoolEv \<lparr>Bool_EvalFnc = None, Bool_Value = False, Bool_Weight = 7\<rparr>), at 0),
    sampleState (sampleModel [] [])) \<and>
   (\<exists>e. nodeToEvaluator_Comparison sampleOperators (sampleOpts None)
          (arrayRule (stringAt 0 ''a'') ''in'' (stringArrayAt 10 [''a'', ''b'']))
          (sampleState (sampleModel [] [])) =
        ((Inr (BoolEv e), at 0), sampleState (sampleModel [] [])) \<and>
        BoolEv \<lparr>Bool_EvalFnc = None, Bool_Value = False, Bool_Weight = 7\<rparr> =
          BoolEv (Not_ev e (sampleOpts None) (sampleState (sampleModel [] []))) \<and>
        (\<forall>ctx. Bool_Eval (Not_ev e (sampleOpts None) (sampleState (sampleModel [] []))) ctx =
                (\<not> Bool_Eval e ctx)))"
proof -
  let ?s = "sampleState (sampleModel [] [])"
  have a: "nodeToEvaluator_Array sampleOperators (sampleOpts None)
             (stringArrayAt 10 [''a'', ''b'']) ?s =
           ((Inr (StringArrayEv \<lparr>StringArray_EvalFnc = None,
                                  StringArray_Values = [''a'', ''b'']\<rparr>), at 10), ?s)"
    by (simp add: nodeToEvaluator_Array_def arrayToEvaluator_def stringArrayAt_def
        sampleOperators_def)
  have l: "nodeToEvaluator_BitOperation sampleOperators (sampleOpts None)
             (literal (stringAt 0 ''a'')) ?s =
           ((Inr (StringEv (stringLiteral ''a'' ScalarValueType)), at 0), ?s)"
    by (rule literal_value)
  have c: "compareArray sampleOperators (sampleOpts None) ?s (at 0) (at 10) ''notin''
             (StringEv (stringLiteral ''a'' ScalarValueType))
             (StringArrayEv \<lparr>StringArray_EvalFnc = None, StringArray_Values = [''a'', ''b'']\<rparr>) =
           (Inr (BoolEv \<lparr>Bool_EvalFnc = None, Bool_Value = False, Bool_Weight = 7\<rparr>), at 0)"
    by (simp add: compareArray_def membership_def sampleOperators_def sampleBool_def
        stringLiteral_def Not_ev_def)
  have n: "nodeToEvaluator_Comparison sampleOperators (sampleOpts None)
             (Comparison (at 0) (literal (stringAt 0 ''a'')) None
                (Some (ArrayComparison (at 10) ''notin'' (stringArrayAt 10 [''a'', ''b''])))) ?s =
           ((Inr (BoolEv \<lparr>Bool_EvalFnc = None, Bool_Value = False, Bool_Weight = 7\<rparr>), at 0), ?s)"
    by (simp add: l a c nodeToEvaluator_ArrayComparison_def)
  have p: "Primary_Pos (stringAt 0 ''a'') = at 0" "Array_Pos (stringArrayAt 10 vs) = at 10" for vs
    by (simp_all add: stringAt_def stringArrayAt_def)
  from notin_negates_in [OF n] n show ?thesis
    by (simp add: arrayRule_def p)
qed

end
